theory Spec2Isabelle
  imports Main
begin

section \<open>JavaScript values and strings\<close>

text \<open>
  Strings are byte lists: the UTF-8 encoding of the source text, so that two rendered
  messages are byte-identical exactly when the two lists are equal.

  \<open>jsval\<close> holds the primitive values that a database row or the body of a request
  carries; where a value may be missing, \<open>None\<close> is \<open>undefined\<close>. A number is an
  integer small enough for JavaScript to print all its digits. A \<open>payload\<close> is what a
  template sees of the data of a job: for each property name, the value it reads there.
\<close>

datatype jsval = Str string | Num int | Bool bool | Null

type_synonym payload = "string \<rightharpoonup> jsval"

fun digits :: "nat \<Rightarrow> string" where
  "digits n = (if n < 10 then [''0123456789'' ! n]
               else digits (n div 10) @ [''0123456789'' ! (n mod 10)])"

declare digits.simps [simp del]

definition show_int :: "int \<Rightarrow> string" where
  "show_int i = (if i < 0 then ''-'' @ digits (nat (- i)) else digits (nat i))"

text \<open>The string a template literal \<open>${v}\<close> puts in place of a value.\<close>

fun js_string :: "jsval option \<Rightarrow> string" where
  "js_string None = ''undefined''"
| "js_string (Some (Str s)) = s"
| "js_string (Some (Num i)) = show_int i"
| "js_string (Some (Bool b)) = (if b then ''true'' else ''false'')"
| "js_string (Some Null) = ''null''"

text \<open>\<open>!v\<close> of JavaScript: the values that count as false in a condition.\<close>

fun falsy :: "jsval option \<Rightarrow> bool" where
  "falsy None = True"
| "falsy (Some (Str s)) = (s = [])"
| "falsy (Some (Num i)) = (i = 0)"
| "falsy (Some (Bool b)) = (\<not> b)"
| "falsy (Some Null) = True"

text \<open>\<open>xs.join(sep)\<close> on strings.\<close>

fun intercalate :: "string \<Rightarrow> string list \<Rightarrow> string" where
  "intercalate sep [] = []"
| "intercalate sep [x] = x"
| "intercalate sep (x # y # ys) = x @ sep @ intercalate sep (y # ys)"

text \<open>
  The data of a job is whatever JSON the job was stored with: a primitive, an array or an
  object (its properties in the order of the text; where a name occurs twice the later
  one counts). \<open>None\<close> is a job stored without \<open>data\<close>.
\<close>

datatype json = Prim jsval | Arr "json list" | Obj "(string \<times> json) list"

text \<open>
  The string conversion of a JSON value, as a template literal or \<open>new Date(v)\<close>
  performs it. An array is its elements joined by commas, \<open>null\<close> counting as the
  empty string; an object is \<open>[object Object]\<close>.
\<close>

fun to_string :: "json \<Rightarrow> string" where
  "to_string (Prim p) = js_string (Some p)"
| "to_string (Arr xs) =
     intercalate '','' (map (\<lambda>x. if x = Prim Null then [] else to_string x) xs)"
| "to_string (Obj kvs) = ''[object Object]''"

text \<open>
  Whether the conversion exists. An object that has a property of its own named
  \<open>toString\<close> has none: the property hides \<open>Object.prototype.toString\<close>, no JSON
  value is a function, and \<open>valueOf\<close> does not give a primitive, so the conversion
  throws a TypeError; so does that of an array with such an element.
\<close>

fun convertible :: "json \<Rightarrow> bool" where
  "convertible (Prim p) = True"
| "convertible (Arr xs) = list_all convertible xs"
| "convertible (Obj kvs) = (''toString'' \<notin> set (map fst kvs))"

text \<open>\<open>data[k]\<close> for a name that no prototype defines: the property of an object,
  and \<open>undefined\<close> on any other value.\<close>

fun property :: "json option \<Rightarrow> string \<Rightarrow> json option" where
  "property (Some (Obj kvs)) k = map_of (rev kvs) k"
| "property d k = None"

text \<open>
  What a template makes of a value it reads: a primitive as it is, an array or an object
  through its string conversion (in a template literal directly, in \<open>new Date(v)\<close>
  because the constructor converts an object to a primitive first).
\<close>

fun primitive :: "json \<Rightarrow> jsval" where
  "primitive (Prim p) = p"
| "primitive v = Str (to_string v)"

definition as_payload :: "json option \<Rightarrow> payload" where
  "as_payload d = (\<lambda>k. map_option primitive (property d k))"

text \<open>
  What the process takes from the machine it runs on: the clock (\<open>Date.now()\<close>), the
  local rendering of a date (\<open>new Date(v).toLocaleString()\<close>, which follows the locale
  and the time zone of the process), the reading of a date
  (\<open>new Date(v).getTime()\<close>, \<open>None\<close> for \<open>NaN\<close>) and \<open>parseInt\<close>
  (\<open>None\<close> for \<open>NaN\<close>).
\<close>

record host =
  now :: nat
  toLocaleString :: "jsval option \<Rightarrow> string"
  getTime :: "jsval option \<Rightarrow> int option"
  parseInt :: "string \<Rightarrow> int option"

datatype error = Error string | TypeError string

fun message :: "error \<Rightarrow> string" where
  "message (Error m) = m"
| "message (TypeError m) = m"

section \<open>config/email.js\<close>

record env =
  EMAIL_PROVIDER :: "string option"
  EMAIL_FROM :: "string option"
  GMAIL_USER :: "string option"
  GMAIL_APP_PASSWORD :: "string option"
  SMTP_HOST :: "string option"
  SMTP_PORT :: "string option"
  SMTP_USER :: "string option"
  SMTP_PASS :: "string option"
  SMTP_SECURE :: "string option"
  EMAIL_RETRY_ATTEMPTS :: "string option"

record emailConfig =
  provider :: string
  fromAddress :: string
  gmailUser :: "string option"
  gmailAppPassword :: "string option"
  smtpHost :: "string option"
  smtpPort :: int
  smtpUser :: "string option"
  smtpPassword :: "string option"
  smtpSecure :: bool
  retryAttempts :: int

text \<open>\<open>process.env.X || d\<close>: an unset or empty variable gives the default.\<close>

fun or_default :: "string option \<Rightarrow> string \<Rightarrow> string" where
  "or_default None d = d"
| "or_default (Some s) d = (if s = [] then d else s)"

text \<open>\<open>parseInt(process.env.X) || d\<close>: \<open>NaN\<close> and 0 give the default.\<close>

definition parseInt_or :: "host \<Rightarrow> string option \<Rightarrow> int \<Rightarrow> int" where
  "parseInt_or h v d =
     (case v of
        None \<Rightarrow> d
      | Some s \<Rightarrow> (case parseInt h s of None \<Rightarrow> d | Some n \<Rightarrow> if n = 0 then d else n))"

definition email_config :: "host \<Rightarrow> env \<Rightarrow> emailConfig" where
  "email_config h e = \<lparr>
     provider = or_default (EMAIL_PROVIDER e) ''mock'',
     fromAddress = or_default (EMAIL_FROM e) ''noreply@scheduling-app.com'',
     gmailUser = GMAIL_USER e,
     gmailAppPassword = GMAIL_APP_PASSWORD e,
     smtpHost = SMTP_HOST e,
     smtpPort = parseInt_or h (SMTP_PORT e) 587,
     smtpUser = SMTP_USER e,
     smtpPassword = SMTP_PASS e,
     smtpSecure = (SMTP_SECURE e = Some ''true''),
     retryAttempts = parseInt_or h (EMAIL_RETRY_ATTEMPTS e) 3
   \<rparr>"

section \<open>services/emailService.js\<close>

subsection \<open>createTransporter\<close>

text \<open>
  What \<open>nodemailer.createTransport\<close> is given. The mail library itself is outside the
  repository: its \<open>sendMail\<close> and \<open>verify\<close> are parameters, each either failing
  with an error or answering.
\<close>

datatype transporter =
    Gmail string string
  | Smtp string int bool string string

record mail =
  mail_from :: string
  mail_to :: string
  mail_subject :: "json option"
  mail_html :: "json option"
  mail_text :: string

record nodemailer =
  sendMail :: "transporter \<Rightarrow> mail \<Rightarrow> error + string"
  verify :: "transporter \<Rightarrow> error option"

text \<open>\<open>!s\<close> for a configuration string: unset or empty.\<close>

fun unset :: "string option \<Rightarrow> bool" where
  "unset None = True"
| "unset (Some s) = (s = [])"

text \<open>The result \<open>Inr None\<close> is the \<open>null\<close> of the \<open>mock\<close>/\<open>default\<close> case.\<close>

definition createTransporter :: "emailConfig \<Rightarrow> error + transporter option" where
  "createTransporter cfg =
     (if provider cfg = ''gmail'' then
        (if unset (gmailUser cfg) \<or> unset (gmailAppPassword cfg) then
           Inl (Error ''Gmail provider requires GMAIL_USER and GMAIL_APP_PASSWORD in .env'')
         else Inr (Some (Gmail (the (gmailUser cfg)) (the (gmailAppPassword cfg)))))
      else if provider cfg = ''smtp'' then
        (if unset (smtpHost cfg) \<or> unset (smtpUser cfg) \<or> unset (smtpPassword cfg) then
           Inl (Error ''SMTP provider requires SMTP_HOST, SMTP_USER, and SMTP_PASS in .env'')
         else Inr (Some (Smtp (the (smtpHost cfg)) (smtpPort cfg) (smtpSecure cfg)
                              (the (smtpUser cfg)) (the (smtpPassword cfg)))))
      else Inr None)"

subsection \<open>templates\<close>

record rendered =
  subject :: string
  html :: string

definition BOOKING_CONFIRMATION :: "host \<Rightarrow> payload \<Rightarrow> rendered" where
  \<open>BOOKING_CONFIRMATION h d = \<lparr>
     subject =
       [CHR 0xE2, CHR 0x9C, CHR 0x85] @
       '' Booking Confirmed: "'' @
       js_string (d ''title'') @
       ''"'',
     html =
       ''\<newline>'' @
       ''            <div style="font-family: sans-serif; max-width: 600px; margin: auto; border: 1px solid #e0e0e0; border-radius: 8px; overflow: hidden;">\<newline>'' @
       ''                <div style="background:#2563eb; padding: 24px; color: white;">\<newline>'' @
       ''                    <h1 style="margin:0; font-size:22px;">'' @
       [CHR 0xF0, CHR 0x9F, CHR 0x93, CHR 0x85] @
       '' Booking Confirmed</h1>\<newline>'' @
       ''                </div>\<newline>'' @
       ''                <div style="padding: 24px;">\<newline>'' @
       ''                    <p>Hi there!</p>\<newline>'' @
       ''                    <p>Your booking <strong>"'' @
       js_string (d ''title'') @
       ''"</strong> has been confirmed.</p>\<newline>'' @
       ''                    <table style="width:100%; border-collapse:collapse; margin:16px 0;">\<newline>'' @
       ''                        <tr style="background:#f3f4f6;">\<newline>'' @
       ''                            <td style="padding:10px; font-weight:bold;">Booking ID</td>\<newline>'' @
       ''                            <td style="padding:10px;">#'' @
       js_string (d ''bookingId'') @
       ''</td>\<newline>'' @
       ''                        </tr>\<newline>'' @
       ''                        <tr>\<newline>'' @
       ''                            <td style="padding:10px; font-weight:bold;">Start</td>\<newline>'' @
       ''                            <td style="padding:10px;">'' @
       toLocaleString h (d ''start'') @
       ''</td>\<newline>'' @
       ''                        </tr>\<newline>'' @
       ''                        <tr style="background:#f3f4f6;">\<newline>'' @
       ''                            <td style="padding:10px; font-weight:bold;">End</td>\<newline>'' @
       ''                            <td style="padding:10px;">'' @
       toLocaleString h (d ''end'') @
       ''</td>\<newline>'' @
       ''                        </tr>\<newline>'' @
       ''                    </table>\<newline>'' @
       ''                    <p style="color:#6b7280; font-size:14px;">Thank you for using our scheduling system!</p>\<newline>'' @
       ''                </div>\<newline>'' @
       ''            </div>\<newline>'' @
       ''        ''
   \<rparr>\<close>

definition BOOKING_CANCELLED :: "host \<Rightarrow> payload \<Rightarrow> rendered" where
  \<open>BOOKING_CANCELLED h d = \<lparr>
     subject =
       [CHR 0xE2, CHR 0x9D, CHR 0x8C] @
       '' Booking Cancelled: "'' @
       js_string (d ''title'') @
       ''"'',
     html =
       ''\<newline>'' @
       ''            <div style="font-family: sans-serif; max-width: 600px; margin: auto; border: 1px solid #e0e0e0; border-radius: 8px; overflow: hidden;">\<newline>'' @
       ''                <div style="background:#dc2626; padding: 24px; color: white;">\<newline>'' @
       ''                    <h1 style="margin:0; font-size:22px;">'' @
       [CHR 0xF0, CHR 0x9F, CHR 0x9A, CHR 0xAB] @
       '' Booking Cancelled</h1>\<newline>'' @
       ''                </div>\<newline>'' @
       ''                <div style="padding: 24px;">\<newline>'' @
       ''                    <p>Hi there,</p>\<newline>'' @
       ''                    <p>Your booking <strong>"'' @
       js_string (d ''title'') @
       ''"</strong> (ID: #'' @
       js_string (d ''bookingId'') @
       '') has been cancelled.</p>\<newline>'' @
       ''                    <p>If this was a mistake, you can create a new booking at any time.</p>\<newline>'' @
       ''                    <p style="color:#6b7280; font-size:14px;">Scheduling App Team</p>\<newline>'' @
       ''                </div>\<newline>'' @
       ''            </div>\<newline>'' @
       ''        ''
   \<rparr>\<close>

definition WELCOME :: "host \<Rightarrow> payload \<Rightarrow> rendered" where
  \<open>WELCOME h d = \<lparr>
     subject =
       [CHR 0xF0, CHR 0x9F, CHR 0x91, CHR 0x8B] @
       '' Welcome to Scheduling App, '' @
       js_string (d ''name'') @
       ''!'',
     html =
       ''\<newline>'' @
       ''            <div style="font-family: sans-serif; max-width: 600px; margin: auto; border: 1px solid #e0e0e0; border-radius: 8px; overflow: hidden;">\<newline>'' @
       ''                <div style="background:#16a34a; padding: 24px; color: white;">\<newline>'' @
       ''                    <h1 style="margin:0; font-size:22px;">Welcome aboard! '' @
       [CHR 0xF0, CHR 0x9F, CHR 0x8E, CHR 0x89] @
       ''</h1>\<newline>'' @
       ''                </div>\<newline>'' @
       ''                <div style="padding: 24px;">\<newline>'' @
       ''                    <p>Hi <strong>'' @
       js_string (d ''name'') @
       ''</strong>!</p>\<newline>'' @
       ''                    <p>Your account has been created successfully. You can now create bookings, join organizations, and more.</p>\<newline>'' @
       ''                    <p style="color:#6b7280; font-size:14px;">Scheduling App Team</p>\<newline>'' @
       ''                </div>\<newline>'' @
       ''            </div>\<newline>'' @
       ''        ''
   \<rparr>\<close>

definition ORG_INVITE :: "host \<Rightarrow> payload \<Rightarrow> rendered" where
  \<open>ORG_INVITE h d = \<lparr>
     subject =
       [CHR 0xF0, CHR 0x9F, CHR 0x8F, CHR 0xA2] @
       '' You'' @
       [CHR 0x27] @
       ''ve been added to "'' @
       js_string (d ''orgName'') @
       ''"'',
     html =
       ''\<newline>'' @
       ''            <div style="font-family: sans-serif; max-width: 600px; margin: auto; border: 1px solid #e0e0e0; border-radius: 8px; overflow: hidden;">\<newline>'' @
       ''                <div style="background:#7c3aed; padding: 24px; color: white;">\<newline>'' @
       ''                    <h1 style="margin:0; font-size:22px;">'' @
       [CHR 0xF0, CHR 0x9F, CHR 0x8F, CHR 0xA2] @
       '' Organization Invite</h1>\<newline>'' @
       ''                </div>\<newline>'' @
       ''                <div style="padding: 24px;">\<newline>'' @
       ''                    <p>Hi there!</p>\<newline>'' @
       ''                    <p>You'' @
       [CHR 0x27] @
       ''ve been added as a <strong>'' @
       js_string (d ''role'') @
       ''</strong> to the organization <strong>"'' @
       js_string (d ''orgName'') @
       ''"</strong>.</p>\<newline>'' @
       ''                    <p style="color:#6b7280; font-size:14px;">Scheduling App Team</p>\<newline>'' @
       ''                </div>\<newline>'' @
       ''            </div>\<newline>'' @
       ''        ''
   \<rparr>\<close>

text \<open>The object literal \<open>templates\<close>: its own keys and the function under each.\<close>

definition templates :: "string \<rightharpoonup> (host \<Rightarrow> payload \<Rightarrow> rendered)" where
  "templates =
     [''BOOKING_CONFIRMATION'' \<mapsto> BOOKING_CONFIRMATION,
      ''BOOKING_CANCELLED'' \<mapsto> BOOKING_CANCELLED,
      ''WELCOME'' \<mapsto> WELCOME,
      ''ORG_INVITE'' \<mapsto> ORG_INVITE]"

definition template_keys :: "string list" where
  "template_keys = [''BOOKING_CONFIRMATION'', ''BOOKING_CANCELLED'', ''WELCOME'', ''ORG_INVITE'']"

text \<open>
  \<open>templates[type]\<close> is a property read on an ordinary object, so a name that is not
  an own key is looked up on \<open>Object.prototype\<close> before the read gives
  \<open>undefined\<close>.
\<close>

definition object_prototype_keys :: "string list" where
  "object_prototype_keys =
     [''constructor'', ''__defineGetter__'', ''__defineSetter__'', ''hasOwnProperty'',
      ''__lookupGetter__'', ''__lookupSetter__'', ''isPrototypeOf'', ''propertyIsEnumerable'',
      ''toString'', ''valueOf'', ''__proto__'', ''toLocaleString'']"

text \<open>
  The properties of \<open>data\<close> that each template embeds, in the order of its text
  (subject first, then html).
\<close>

definition template_reads :: "string \<Rightarrow> string list" where
  "template_reads ty =
     (if ty = ''BOOKING_CONFIRMATION'' then
        [''title'', ''title'', ''bookingId'', ''start'', ''end'']
      else if ty = ''BOOKING_CANCELLED'' then [''title'', ''title'', ''bookingId'']
      else if ty = ''WELCOME'' then [''name'', ''name'']
      else if ty = ''ORG_INVITE'' then [''orgName'', ''role'', ''orgName'']
      else [])"

datatype lookup =
    Own "string list" "host \<Rightarrow> payload \<Rightarrow> rendered"
  | Inherited string
  | Undefined

definition templates_get :: "string \<Rightarrow> lookup" where
  "templates_get ty =
     (case templates ty of
        Some f \<Rightarrow> Own (template_reads ty) f
      | None \<Rightarrow> if ty \<in> set object_prototype_keys then Inherited ty else Undefined)"

text \<open>
  What a template throws on given data, if anything. \<open>data.title\<close> (or the first
  property read) throws when \<open>data\<close> is \<open>undefined\<close> or \<open>null\<close>; on any
  other value the reads succeed, and the template literal throws at the first value
  read that has no string conversion.
\<close>

definition template_throws :: "string list \<Rightarrow> json option \<Rightarrow> error option" where
  "template_throws reads d =
     (case d of
        None \<Rightarrow> Some (TypeError ''Cannot read properties of undefined'')
      | Some (Prim Null) \<Rightarrow> Some (TypeError ''Cannot read properties of null'')
      | Some v \<Rightarrow>
          if list_all (\<lambda>k. case property d k of None \<Rightarrow> True | Some x \<Rightarrow> convertible x) reads
          then None
          else Some (TypeError ''Cannot convert object to primitive value''))"

text \<open>\<open>typeof v === 'object'\<close> for a JSON value that is not \<open>null\<close>.\<close>

fun is_object :: "json option \<Rightarrow> bool" where
  "is_object (Some (Arr xs)) = True"
| "is_object (Some (Obj kvs)) = True"
| "is_object d = False"

text \<open>
  \<open>const { subject, html } = templateFn(data)\<close>. An own template gives its two strings
  unless it throws. Of the inherited members, called with no receiver:
  \<open>toString\<close> answers the string \<open>[object Undefined]\<close>, which has neither
  property; \<open>constructor\<close> is \<open>Object\<close> and answers the data itself (a new empty
  object for \<open>undefined\<close> and \<open>null\<close>), whose \<open>subject\<close> and \<open>html\<close> are
  then read; \<open>__proto__\<close> is an object and not callable; \<open>isPrototypeOf\<close>
  answers \<open>false\<close> for data that is not an object and needs a receiver otherwise;
  every other member needs a receiver and throws.
\<close>

definition call_template ::
  "lookup \<Rightarrow> host \<Rightarrow> json option \<Rightarrow> error + (json option \<times> json option)" where
  "call_template f h d =
     (case f of
        Own reads t \<Rightarrow>
          (case template_throws reads d of
             Some e \<Rightarrow> Inl e
           | None \<Rightarrow>
               Inr (Some (Prim (Str (subject (t h (as_payload d))))),
                    Some (Prim (Str (html (t h (as_payload d)))))))
      | Inherited k \<Rightarrow>
          if k = ''toString'' then Inr (None, None)
          else if k = ''constructor'' then Inr (property d ''subject'', property d ''html'')
          else if k = ''__proto__'' then Inl (TypeError ''templateFn is not a function'')
          else if k = ''isPrototypeOf'' \<and> \<not> is_object d then Inr (None, None)
          else Inl (TypeError ''Cannot convert undefined or null to object'')
      | Undefined \<Rightarrow> Inl (TypeError ''templateFn is not a function''))"

subsection \<open>toPlainText\<close>

text \<open>\<open>html.replace(/<[^>]+>/g, '')\<close>: a tag is \<open><\<close>, one or more characters other
  than \<open>>\<close>, and \<open>>\<close>.\<close>

function strip_tags :: "string \<Rightarrow> string" where
  "strip_tags [] = []"
| "strip_tags (c # cs) =
     (if c = CHR ''<'' \<and> takeWhile (\<lambda>x. x \<noteq> CHR ''>'') cs \<noteq> []
           \<and> dropWhile (\<lambda>x. x \<noteq> CHR ''>'') cs \<noteq> []
      then strip_tags (tl (dropWhile (\<lambda>x. x \<noteq> CHR ''>'') cs))
      else c # strip_tags cs)"
  by pat_completeness auto
termination
proof (relation "measure length")
  fix c :: char and cs :: string
  have "length (dropWhile (\<lambda>x. x \<noteq> CHR ''>'') cs) \<le> length cs"
    by (rule length_dropWhile_le)
  then show "(tl (dropWhile (\<lambda>x. x \<noteq> CHR ''>'') cs), c # cs) \<in> measure length"
    by simp
qed simp_all

text \<open>The characters of \<open>\s\<close>, as UTF-8 byte sequences.\<close>

definition ascii_ws :: "char list" where
  "ascii_ws = [CHR 0x09, CHR 0x0A, CHR 0x0B, CHR 0x0C, CHR 0x0D, CHR 0x20]"

definition unicode_ws3 :: "string list" where
  "unicode_ws3 =
     [[CHR 0xE1, CHR 0x9A, CHR 0x80],
      [CHR 0xE2, CHR 0x80, CHR 0x80], [CHR 0xE2, CHR 0x80, CHR 0x81],
      [CHR 0xE2, CHR 0x80, CHR 0x82], [CHR 0xE2, CHR 0x80, CHR 0x83],
      [CHR 0xE2, CHR 0x80, CHR 0x84], [CHR 0xE2, CHR 0x80, CHR 0x85],
      [CHR 0xE2, CHR 0x80, CHR 0x86], [CHR 0xE2, CHR 0x80, CHR 0x87],
      [CHR 0xE2, CHR 0x80, CHR 0x88], [CHR 0xE2, CHR 0x80, CHR 0x89],
      [CHR 0xE2, CHR 0x80, CHR 0x8A], [CHR 0xE2, CHR 0x80, CHR 0xA8],
      [CHR 0xE2, CHR 0x80, CHR 0xA9], [CHR 0xE2, CHR 0x80, CHR 0xAF],
      [CHR 0xE2, CHR 0x81, CHR 0x9F], [CHR 0xE3, CHR 0x80, CHR 0x80],
      [CHR 0xEF, CHR 0xBB, CHR 0xBF]]"

text \<open>The number of bytes of the white-space character a string starts with, 0 if none.\<close>

definition ws_width :: "string \<Rightarrow> nat" where
  "ws_width s =
     (if s \<noteq> [] \<and> hd s \<in> set ascii_ws then 1
      else if take 2 s = [CHR 0xC2, CHR 0xA0] then 2
      else if take 3 s \<in> set unicode_ws3 then 3
      else 0)"

text \<open>\<open>.replace(/\s+/g, ' ')\<close>; the flag says that the run being read has already
  been replaced by its one space.\<close>

function collapse_ws :: "bool \<Rightarrow> string \<Rightarrow> string" where
  "collapse_ws in_run [] = []"
| "collapse_ws in_run (c # cs) =
     (if ws_width (c # cs) = 0 then c # collapse_ws False cs
      else (if in_run then [] else '' '') @ collapse_ws True (drop (ws_width (c # cs)) (c # cs)))"
  by pat_completeness auto
termination
  by (relation "measure (\<lambda>(b, s). length s)") auto

text \<open>\<open>.trim()\<close> of a string in which every white-space run is already one space.\<close>

definition trim :: "string \<Rightarrow> string" where
  "trim s = rev (dropWhile (\<lambda>c. c = CHR '' '') (rev (dropWhile (\<lambda>c. c = CHR '' '') s)))"

text \<open>\<open>toPlainText\<close> calls \<open>html.replace\<close>, which only a string has.\<close>

definition toPlainText :: "json option \<Rightarrow> error + string" where
  "toPlainText v =
     (case v of
        Some (Prim (Str s)) \<Rightarrow> Inr (trim (collapse_ws False (strip_tags s)))
      | Some (Prim Null) \<Rightarrow>
          Inl (TypeError ''Cannot read properties of null (reading replace)'')
      | Some x \<Rightarrow> Inl (TypeError ''html.replace is not a function'')
      | None \<Rightarrow> Inl (TypeError ''Cannot read properties of undefined (reading replace)''))"

subsection \<open>send and verifyConnection\<close>

text \<open>
  What a call does besides returning: lines on the console (by what they report, not by
  their layout), the pause of the mock mode, the uses of the mail library, and the
  hand-overs between the queue and the worker (the job id first, then the attempt
  count). In mock mode the lines of one mail are one effect; it is absent when the
  line that prints the subject throws.
\<close>

datatype effect =
    Sleep nat
  | LogMockEmail string string string
  | LogEmailSent string string
  | LogMockMode
  | LogConnected string
  | LogConnectionFailed string string
  | CreateTransport transporter
  | SendMail transporter mail
  | Verify transporter
  | LogWorkerStarted
  | LogListening
  | LogProcessing nat string string
  | LogDone nat string string
  | LogCompleted nat
  | LogFailed nat nat string
  | ProcessorRegistered
  | Claimed nat nat
  | Acked nat
  | Requeued nat
  | FailedPermanent nat

record outcome =
  success :: bool
  outcome_provider :: string
  messageId :: string

definition unknown_type :: "string \<Rightarrow> error" where
  \<open>unknown_type ty =
     Error (''Unknown email type: "'' @ ty @ ''". Available: '' @ intercalate '', '' template_keys)\<close>

text \<open>The string a template literal puts in place of a value that may be missing.\<close>

fun opt_string :: "json option \<Rightarrow> string" where
  "opt_string None = ''undefined''"
| "opt_string (Some v) = to_string v"

fun opt_convertible :: "json option \<Rightarrow> bool" where
  "opt_convertible None = True"
| "opt_convertible (Some v) = convertible v"

definition send ::
  "emailConfig \<Rightarrow> nodemailer \<Rightarrow> host \<Rightarrow> string \<Rightarrow> string \<Rightarrow> json option
     \<Rightarrow> (error + outcome) \<times> effect list" where
  \<open>send cfg nm h to ty d =
     (case templates_get ty of
        Undefined \<Rightarrow> (Inl (unknown_type ty), [])
      | templateFn \<Rightarrow>
         (case call_template templateFn h d of
            Inl e \<Rightarrow> (Inl e, [])
          | Inr (subj, htm) \<Rightarrow>
             if provider cfg = ''mock'' then
               (if opt_convertible subj then
                  (Inr \<lparr>success = True, outcome_provider = ''mock'',
                        messageId = ''mock-'' @ digits (now h)\<rparr>,
                   [Sleep 500, LogMockEmail to (opt_string subj) ty])
                else
                  (Inl (TypeError ''Cannot convert object to primitive value''), [Sleep 500]))
             else
               (case createTransporter cfg of
                  Inl e \<Rightarrow> (Inl e, [])
                | Inr None \<Rightarrow> (Inl (TypeError ''Cannot read properties of null (reading sendMail)''), [])
                | Inr (Some tr) \<Rightarrow>
                   (case toPlainText htm of
                      Inl e \<Rightarrow> (Inl e, [CreateTransport tr])
                    | Inr txt \<Rightarrow>
                       (case sendMail nm tr
                               \<lparr>mail_from = ''"Scheduling App" <'' @ fromAddress cfg @ ''>'',
                                mail_to = to, mail_subject = subj, mail_html = htm,
                                mail_text = txt\<rparr> of
                          Inl e \<Rightarrow>
                            (Inl e,
                             [CreateTransport tr,
                              SendMail tr
                               \<lparr>mail_from = ''"Scheduling App" <'' @ fromAddress cfg @ ''>'',
                                mail_to = to, mail_subject = subj, mail_html = htm,
                                mail_text = txt\<rparr>])
                        | Inr mid \<Rightarrow>
                            (Inr \<lparr>success = True, outcome_provider = provider cfg,
                                  messageId = mid\<rparr>,
                             [CreateTransport tr,
                              SendMail tr
                               \<lparr>mail_from = ''"Scheduling App" <'' @ fromAddress cfg @ ''>'',
                                mail_to = to, mail_subject = subj, mail_html = htm,
                                mail_text = txt\<rparr>,
                              LogEmailSent to mid]))))))\<close>

text \<open>
  \<open>verifyConnection\<close> has no result: whatever \<open>createTransporter\<close> or
  \<open>verify\<close> throws is caught and logged, so the call always completes. It is an
  async function: what it does up to its \<open>await\<close> happens during the call, the
  rest when the mail server has answered. The two parts are the two components.
\<close>

definition verifyConnection :: "emailConfig \<Rightarrow> nodemailer \<Rightarrow> effect list \<times> effect list" where
  "verifyConnection cfg nm =
     (if provider cfg = ''mock'' then ([LogMockMode], [])
      else
        (case createTransporter cfg of
           Inl e \<Rightarrow> ([LogConnectionFailed (provider cfg) (message e)], [])
         | Inr None \<Rightarrow>
             ([LogConnectionFailed (provider cfg)
                 ''Cannot read properties of null (reading verify)''], [])
         | Inr (Some tr) \<Rightarrow>
             ([CreateTransport tr, Verify tr],
              (case verify nm tr of
                 Some e \<Rightarrow> [LogConnectionFailed (provider cfg) (message e)]
               | None \<Rightarrow> [LogConnected (provider cfg)]))))"

section \<open>workers/emailQueue.js and the queue behind it\<close>

text \<open>What a producer hands to \<open>emailQueue.add\<close>: \<open>{ email, type, data }\<close>.\<close>

record job_data =
  email :: string
  type :: string
  data :: "json option"

text \<open>
  The options of a job that bear on retrying: how many times it is tried and the
  backoff setting. Only their presence matters here: how long the library waits on a
  given setting is not modelled.
\<close>

record job_opts =
  attempts :: "nat option"
  backoff :: "nat option"

text \<open>Modelled from the spec: the Job Envelope that the library keeps for a job (the
  library is not part of the source): its id, what the producer handed over, its
  options, the number of failed attempts so far and its status.\<close>

datatype job_status = PENDING | IN_FLIGHT | COMPLETED | FAILED_PERMANENT

record job =
  job_id :: nat
  payload_of :: job_data
  opts :: job_opts
  attempt_count :: nat
  job_status :: job_status

record queue =
  defaultJobOptions :: "job_opts option"
  jobs :: "job list"
  next_id :: nat

text \<open>
  \<open>new Queue('emails', { createClient })\<close>: the only option given is how to connect, so
  the queue has no default job options.
\<close>

definition emailQueue :: queue where
  "emailQueue = \<lparr>defaultJobOptions = None, jobs = [], next_id = 1\<rparr>"

text \<open>
  The broker and the retry controller are the queue library (\<open>bull\<close>, a dependency of
  the repository, not part of its source). What the repository decides is which options
  reach it; what it does with them is taken from the specification of the broker, and a
  job for which nobody gives a number of attempts takes the library's default of a
  single attempt.
\<close>

text \<open>Modelled from the spec: the options of a new job are those given to \<open>add\<close>, and
  for each one not given there the queue's default job options (the library's merge of
  the two; the library is not part of the source).\<close>

definition job_options :: "job_opts option \<Rightarrow> job_opts option \<Rightarrow> job_opts" where
  "job_options defaults given =
     (case given of
        Some g \<Rightarrow>
          \<lparr>attempts = (case attempts g of Some n \<Rightarrow> Some n
                         | None \<Rightarrow> (case defaults of Some d \<Rightarrow> attempts d | None \<Rightarrow> None)),
           backoff = (case backoff g of Some n \<Rightarrow> Some n
                        | None \<Rightarrow> (case defaults of Some d \<Rightarrow> backoff d | None \<Rightarrow> None))\<rparr>
      | None \<Rightarrow>
          (case defaults of Some d \<Rightarrow> d | None \<Rightarrow> \<lparr>attempts = None, backoff = None\<rparr>))"

text \<open>Modelled from the spec: \<open>enqueue(envelope) -> id\<close> of the broker (the library's
  \<open>add\<close>, not part of the source): a new envelope with a fresh id, status PENDING and
  attempt count 0.\<close>

definition enqueue :: "queue \<Rightarrow> job_data \<Rightarrow> job_opts option \<Rightarrow> queue" where
  "enqueue q d given =
     q\<lparr>jobs := jobs q @
           [\<lparr>job_id = next_id q, payload_of = d,
             opts = job_options (defaultJobOptions q) given,
             attempt_count = 0, job_status = PENDING\<rparr>],
       next_id := next_id q + 1\<rparr>"

text \<open>Every producer of the repository calls \<open>emailQueue.add(jobData)\<close>, with no
  second argument.\<close>

definition emailQueue_add :: "queue \<Rightarrow> job_data \<Rightarrow> queue" where
  "emailQueue_add q d = enqueue q d None"

text \<open>Modelled from the spec: \<open>max_attempts\<close>, the fixed policy constant of an
  envelope (the library's \<open>attempts\<close> option, not part of the source); one attempt when
  the option is not given.\<close>

definition max_attempts :: "job \<Rightarrow> nat" where
  "max_attempts j = (case attempts (opts j) of None \<Rightarrow> 1 | Some n \<Rightarrow> n)"

text \<open>Modelled from the spec: \<open>claim\<close> of the broker (in the library, not part of the
  source) marks the envelope IN_FLIGHT.\<close>

definition claim :: "job \<Rightarrow> job" where
  "claim j = j\<lparr>job_status := IN_FLIGHT\<rparr>"

text \<open>Modelled from the spec: \<open>ack(id)\<close> of the broker (in the library, not part of
  the source) marks the envelope COMPLETED.\<close>

definition ack :: "job \<Rightarrow> job" where
  "ack j = j\<lparr>job_status := COMPLETED\<rparr>"

text \<open>Modelled from the spec: \<open>nack(id, retry)\<close> of the broker (in the library, not
  part of the source). With \<open>retry\<close> it increments the attempt count and resets the
  status to PENDING unless the count has reached \<open>max_attempts\<close>, in which case the
  status becomes FAILED_PERMANENT; without \<open>retry\<close> the status becomes
  FAILED_PERMANENT at once.\<close>

definition nack :: "job \<Rightarrow> bool \<Rightarrow> job" where
  "nack j retry =
     (if retry then
        (if max_attempts j \<le> attempt_count j + 1
         then j\<lparr>attempt_count := attempt_count j + 1, job_status := FAILED_PERMANENT\<rparr>
         else j\<lparr>attempt_count := attempt_count j + 1, job_status := PENDING\<rparr>)
      else j\<lparr>job_status := FAILED_PERMANENT\<rparr>)"

text \<open>
  Modelled from the spec: the worker loop of the library (not part of the source) on one
  job, to its end: claim, run the handler, then \<open>ack\<close> on
  success and \<open>nack\<close> on failure, and again while the job is PENDING. The handler is
  given the number of the attempt, since the mail server it talks to may answer
  differently each time. The last two lines of each round are the listeners that
  \<open>worker.js\<close> registers for \<open>completed\<close> and \<open>failed\<close>.
\<close>

function run_job ::
  "(nat \<Rightarrow> job \<Rightarrow> (error + outcome) \<times> effect list) \<Rightarrow> job \<Rightarrow> job \<times> effect list" where
  "run_job handler j =
     (if job_status j \<noteq> PENDING then (j, [])
      else
        (case fst (handler (attempt_count j) (claim j)) of
           Inr r \<Rightarrow>
             (ack (claim j),
              Claimed (job_id j) (attempt_count j) # snd (handler (attempt_count j) (claim j))
                @ [Acked (job_id j), LogCompleted (job_id j)])
         | Inl e \<Rightarrow>
             (if job_status (nack (claim j) True) = PENDING then
                (fst (run_job handler (nack (claim j) True)),
                 Claimed (job_id j) (attempt_count j) # snd (handler (attempt_count j) (claim j))
                   @ [Requeued (job_id j),
                      LogFailed (job_id j) (attempt_count j + 1) (message e)]
                   @ snd (run_job handler (nack (claim j) True)))
              else
                (nack (claim j) True,
                 Claimed (job_id j) (attempt_count j) # snd (handler (attempt_count j) (claim j))
                   @ [FailedPermanent (job_id j),
                      LogFailed (job_id j) (attempt_count j + 1) (message e)]))))"
  by pat_completeness auto
termination
proof (relation "measure (\<lambda>(handler, j). max_attempts j - attempt_count j)")
  show "wf (measure (\<lambda>(handler, j). max_attempts j - attempt_count j))"
    by simp
next
  fix handler :: "nat \<Rightarrow> job \<Rightarrow> (error + outcome) \<times> effect list" and j :: job and e :: error
  assume "job_status (nack (claim j) True) = PENDING"
  then have "attempt_count j + 1 < max_attempts j"
    by (simp add: nack_def claim_def max_attempts_def split: if_splits)
  then show "((handler, nack (claim j) True), (handler, j))
               \<in> measure (\<lambda>(handler, j). max_attempts j - attempt_count j)"
    by (simp add: nack_def claim_def max_attempts_def)
next
  fix handler :: "nat \<Rightarrow> job \<Rightarrow> (error + outcome) \<times> effect list" and j :: job and e :: error
  assume "job_status (nack (claim j) True) = PENDING"
  then have "attempt_count j + 1 < max_attempts j"
    by (simp add: nack_def claim_def max_attempts_def split: if_splits)
  then show "((handler, nack (claim j) True), (handler, j))
               \<in> measure (\<lambda>(handler, j). max_attempts j - attempt_count j)"
    by (simp add: nack_def claim_def max_attempts_def)
qed

declare run_job.simps [simp del]

section \<open>worker.js\<close>

text \<open>The function given to \<open>emailQueue.process\<close>.\<close>

definition processor ::
  "emailConfig \<Rightarrow> nodemailer \<Rightarrow> host \<Rightarrow> job \<Rightarrow> (error + outcome) \<times> effect list" where
  "processor cfg nm h j =
     (case send cfg nm h (email (payload_of j)) (type (payload_of j)) (data (payload_of j)) of
        (Inl e, effs) \<Rightarrow>
          (Inl e, LogProcessing (job_id j) (type (payload_of j)) (email (payload_of j)) # effs)
      | (Inr result, effs) \<Rightarrow>
          (Inr result,
           LogProcessing (job_id j) (type (payload_of j)) (email (payload_of j)) # effs
             @ [LogDone (job_id j) (outcome_provider result) (messageId result)]))"

text \<open>
  The start of the worker process: a line on the console, the call of
  \<open>verifyConnection()\<close>, which is not awaited and never throws, another line, and the
  registration of the processor. There is no exit on that path. What
  \<open>verifyConnection\<close> does after its \<open>await\<close> comes once the script has run to
  its end, so after the registration (and possibly after jobs have been processed).
\<close>

datatype process_state = Exited nat | Processing

record worker =
  console :: "effect list"
  state :: process_state

definition worker_start :: "emailConfig \<Rightarrow> nodemailer \<Rightarrow> worker" where
  "worker_start cfg nm =
     \<lparr>console = [LogWorkerStarted] @ fst (verifyConnection cfg nm)
                  @ [LogListening, ProcessorRegistered] @ snd (verifyConnection cfg nm),
      state = Processing\<rparr>"

section \<open>The database and the models\<close>

text \<open>
  The two tables of \<open>init.sql\<close> that the booking routes write. \<open>user_id\<close> and
  \<open>status\<close> are nullable columns (\<open>None\<close> is NULL). A time stamp is kept as the
  value it was given. \<open>available\<close> is the number of queries the database still
  answers: a query beyond it is rejected and \<open>db.query\<close> throws, which stands for
  every way a query can fail.
\<close>

record booking =
  booking_id :: int
  user_id :: "int option"
  title :: string
  start_time :: "jsval option"
  end_time :: "jsval option"
  status :: "string option"
  created_at :: nat
  updated_at :: nat

record notification =
  notification_id :: int
  n_user_id :: "int option"
  n_type :: string
  n_title :: string
  n_message :: "string option"
  is_read :: bool
  metadata :: string

record db =
  bookings :: "booking list"
  notifications :: "notification list"
  bookings_seq :: int
  notifications_seq :: int
  clock :: nat
  available :: nat

definition db_error :: error where
  "db_error = Error ''query failed''"

text \<open>\<open>BookingModel.create\<close>: INSERT ... RETURNING *, the first row returned.\<close>

definition BookingModel_create ::
  "db \<Rightarrow> int \<Rightarrow> jsval option \<Rightarrow> jsval option \<Rightarrow> jsval option \<Rightarrow> (error + booking) \<times> db" where
  "BookingModel_create d userId ttl start fin =
     (if available d = 0 then (Inl db_error, d)
      else
        (Inr \<lparr>booking_id = bookings_seq d, user_id = Some userId, title = js_string ttl,
              start_time = start, end_time = fin, status = Some ''confirmed'',
              created_at = clock d, updated_at = clock d\<rparr>,
         d\<lparr>bookings := bookings d @
               [\<lparr>booking_id = bookings_seq d, user_id = Some userId, title = js_string ttl,
                 start_time = start, end_time = fin, status = Some ''confirmed'',
                 created_at = clock d, updated_at = clock d\<rparr>],
           bookings_seq := bookings_seq d + 1,
           available := available d - 1\<rparr>))"

text \<open>
  The WHERE clause of \<open>BookingModel.cancel\<close>:
  \<open>id = $1 AND user_id = $2 AND status != 'cancelled'\<close>. A comparison with NULL is not
  true.
\<close>

definition cancel_where :: "int \<Rightarrow> int \<Rightarrow> booking \<Rightarrow> bool" where
  "cancel_where bookingId userId b =
     (booking_id b = bookingId \<and> user_id b = Some userId
      \<and> (case status b of None \<Rightarrow> False | Some s \<Rightarrow> s \<noteq> ''cancelled''))"

definition cancel_set :: "db \<Rightarrow> booking \<Rightarrow> booking" where
  "cancel_set d b = b\<lparr>status := Some ''cancelled'', updated_at := clock d\<rparr>"

text \<open>\<open>BookingModel.cancel\<close>: UPDATE ... RETURNING *, then \<open>rows[0]\<close>, which is
  \<open>undefined\<close> (\<open>None\<close>) when no row was updated.\<close>

definition BookingModel_cancel :: "db \<Rightarrow> int \<Rightarrow> int \<Rightarrow> (error + booking option) \<times> db" where
  "BookingModel_cancel d bookingId userId =
     (if available d = 0 then (Inl db_error, d)
      else
        ((case filter (cancel_where bookingId userId) (bookings d) of
            [] \<Rightarrow> Inr None
          | b # bs \<Rightarrow> Inr (Some (cancel_set d b))),
         d\<lparr>bookings := map (\<lambda>b. if cancel_where bookingId userId b then cancel_set d b else b)
                            (bookings d),
           available := available d - 1\<rparr>))"

text \<open>\<open>NotificationModel.create\<close>.\<close>

definition NotificationModel_create ::
  "db \<Rightarrow> int \<Rightarrow> string \<Rightarrow> string \<Rightarrow> string option \<Rightarrow> string \<Rightarrow> (error + notification) \<times> db" where
  "NotificationModel_create d userId ty ttl msg meta =
     (if available d = 0 then (Inl db_error, d)
      else
        (Inr \<lparr>notification_id = notifications_seq d, n_user_id = Some userId, n_type = ty,
              n_title = ttl, n_message = msg, is_read = False, metadata = meta\<rparr>,
         d\<lparr>notifications := notifications d @
               [\<lparr>notification_id = notifications_seq d, n_user_id = Some userId, n_type = ty,
                 n_title = ttl, n_message = msg, is_read = False, metadata = meta\<rparr>],
           notifications_seq := notifications_seq d + 1,
           available := available d - 1\<rparr>))"

section \<open>routes/bookings.js\<close>

text \<open>
  A request that has passed \<open>authMiddleware\<close>: the user of the token, the three fields
  of the body that the handlers read, and the \<open>:id\<close> of the path, as the integer the
  \<open>id\<close> column compares it with.
\<close>

record request =
  user_id_of :: int
  user_email :: string
  body_title :: "jsval option"
  body_start :: "jsval option"
  body_end :: "jsval option"
  params_id :: int

datatype reply =
    ErrorReply string
  | BookingReply string booking

record response =
  code :: nat
  reply :: reply

text \<open>What a handler does, in the order in which it does it.\<close>

datatype step =
    BookingCreated booking
  | BookingCancelled booking
  | NoRowCancelled
  | QueryFailed
  | EmailQueued job_data
  | NotificationCreated notification
  | Responded nat

record handled =
  response :: response
  db_after :: db
  queue_after :: queue
  steps :: "step list"

definition server_error :: response where
  "server_error = \<lparr>code = 500, reply = ErrorReply ''Server error''\<rparr>"

definition bad_request :: "string \<Rightarrow> response" where
  "bad_request m = \<lparr>code = 400, reply = ErrorReply m\<rparr>"

text \<open>The first of the checks of POST /bookings that rejects the body, if any.\<close>

definition post_validation :: "host \<Rightarrow> request \<Rightarrow> string option" where
  "post_validation h r =
     (if falsy (body_title r) \<or> falsy (body_start r) \<or> falsy (body_end r)
        then Some ''Title, start, and end are required''
      else
        (case (getTime h (body_start r), getTime h (body_end r)) of
           (Some startDate, Some endDate) \<Rightarrow>
             if startDate < int (now h) then Some ''Start time cannot be in the past''
             else if endDate \<le> startDate then Some ''End time must be after start time''
             else None
         | _ \<Rightarrow> Some ''Invalid date format''))"

text \<open>A property of an object literal whose value may be \<open>undefined\<close>: it is left
  out when the job is stored.\<close>

fun optional :: "string \<Rightarrow> jsval option \<Rightarrow> (string \<times> json) list" where
  "optional k None = []"
| "optional k (Some v) = [(k, Prim v)]"

definition confirmation_job :: "request \<Rightarrow> booking \<Rightarrow> job_data" where
  "confirmation_job r b =
     \<lparr>email = user_email r, type = ''BOOKING_CONFIRMATION'',
      data = Some (Obj ([(''bookingId'', Prim (Num (booking_id b))),
                         (''title'', Prim (Str (title b)))]
                        @ optional ''start'' (start_time b) @ optional ''end'' (end_time b)))\<rparr>"

definition post_bookings :: "host \<Rightarrow> db \<Rightarrow> queue \<Rightarrow> request \<Rightarrow> handled" where
  \<open>post_bookings h d q r =
     (case post_validation h r of
        Some m \<Rightarrow>
          \<lparr>response = bad_request m, db_after = d, queue_after = q, steps = [Responded 400]\<rparr>
      | None \<Rightarrow>
         (case BookingModel_create d (user_id_of r) (body_title r) (body_start r) (body_end r) of
            (Inl e, d1) \<Rightarrow>
              \<lparr>response = server_error, db_after = d1, queue_after = q,
               steps = [QueryFailed, Responded 500]\<rparr>
          | (Inr b, d1) \<Rightarrow>
             (case NotificationModel_create d1 (user_id_of r) ''BOOKING_CONFIRMED''
                     (''Booking "'' @ js_string (body_title r) @ ''" confirmed'')
                     (Some (''Your booking is scheduled from '' @ toLocaleString h (body_start r)
                            @ '' to '' @ toLocaleString h (body_end r) @ ''.''))
                     (''{"booking_id":'' @ show_int (booking_id b) @ ''}'') of
                (Inl e, d2) \<Rightarrow>
                  \<lparr>response = server_error, db_after = d2,
                   queue_after = emailQueue_add q (confirmation_job r b),
                   steps = [BookingCreated b, EmailQueued (confirmation_job r b), QueryFailed,
                            Responded 500]\<rparr>
              | (Inr n, d2) \<Rightarrow>
                  \<lparr>response = \<lparr>code = 201, reply = BookingReply ''Booking created successfully'' b\<rparr>,
                   db_after = d2,
                   queue_after = emailQueue_add q (confirmation_job r b),
                   steps = [BookingCreated b, EmailQueued (confirmation_job r b),
                            NotificationCreated n, Responded 201]\<rparr>)))\<close>

definition cancellation_job :: "request \<Rightarrow> booking \<Rightarrow> job_data" where
  "cancellation_job r b =
     \<lparr>email = user_email r, type = ''BOOKING_CANCELLED'',
      data = Some (Obj [(''bookingId'', Prim (Num (booking_id b))),
                        (''title'', Prim (Str (title b)))])\<rparr>"

definition delete_booking :: "db \<Rightarrow> queue \<Rightarrow> request \<Rightarrow> handled" where
  \<open>delete_booking d q r =
     (case BookingModel_cancel d (params_id r) (user_id_of r) of
        (Inl e, d1) \<Rightarrow>
          \<lparr>response = server_error, db_after = d1, queue_after = q,
           steps = [QueryFailed, Responded 500]\<rparr>
      | (Inr None, d1) \<Rightarrow>
          \<lparr>response = \<lparr>code = 404,
                        reply = ErrorReply ''Booking not found, not yours, or already cancelled''\<rparr>,
           db_after = d1, queue_after = q, steps = [NoRowCancelled, Responded 404]\<rparr>
      | (Inr (Some cancelled), d1) \<Rightarrow>
         (case NotificationModel_create d1 (user_id_of r) ''BOOKING_CANCELLED''
                 (''Booking "'' @ title cancelled @ ''" cancelled'')
                 (Some ''Your booking has been successfully cancelled.'')
                 (''{"booking_id":'' @ show_int (booking_id cancelled) @ ''}'') of
            (Inl e, d2) \<Rightarrow>
              \<lparr>response = server_error, db_after = d2,
               queue_after = emailQueue_add q (cancellation_job r cancelled),
               steps = [BookingCancelled cancelled, EmailQueued (cancellation_job r cancelled),
                        QueryFailed, Responded 500]\<rparr>
          | (Inr n, d2) \<Rightarrow>
              \<lparr>response = \<lparr>code = 200,
                            reply = BookingReply ''Booking cancelled successfully'' cancelled\<rparr>,
               db_after = d2,
               queue_after = emailQueue_add q (cancellation_job r cancelled),
               steps = [BookingCancelled cancelled, EmailQueued (cancellation_job r cancelled),
                        NotificationCreated n, Responded 200]\<rparr>))\<close>

section \<open>Reading a trace\<close>

fun uses_transport :: "effect \<Rightarrow> bool" where
  "uses_transport (CreateTransport tr) = True"
| "uses_transport (SendMail tr m) = True"
| "uses_transport (Verify tr) = True"
| "uses_transport e = False"

text \<open>The subjects of the mails handed to the mail library, in order.\<close>

fun sent_subjects :: "effect list \<Rightarrow> json option list" where
  "sent_subjects [] = []"
| "sent_subjects (SendMail tr m # es) = mail_subject m # sent_subjects es"
| "sent_subjects (e # es) = sent_subjects es"

text \<open>The attempt counts at which a job was claimed, the ids put back, and the ids
  acknowledged.\<close>

fun claims :: "effect list \<Rightarrow> nat list" where
  "claims [] = []"
| "claims (Claimed i n # es) = n # claims es"
| "claims (e # es) = claims es"

fun requeues :: "effect list \<Rightarrow> nat list" where
  "requeues [] = []"
| "requeues (Requeued i # es) = i # requeues es"
| "requeues (e # es) = requeues es"

fun acks :: "effect list \<Rightarrow> nat list" where
  "acks [] = []"
| "acks (Acked i # es) = i # acks es"
| "acks (e # es) = acks es"

text \<open>Every \<open>EmailQueued\<close> step comes after a booking was created or cancelled; the
  flag says whether such a write has been seen.\<close>

fun write_precedes :: "bool \<Rightarrow> step list \<Rightarrow> bool" where
  "write_precedes w [] = True"
| "write_precedes w (BookingCreated b # ss) = write_precedes True ss"
| "write_precedes w (BookingCancelled b # ss) = write_precedes True ss"
| "write_precedes w (EmailQueued jd # ss) = (w \<and> write_precedes w ss)"
| "write_precedes w (s # ss) = write_precedes w ss"

fun queued :: "step list \<Rightarrow> job_data list" where
  "queued [] = []"
| "queued (EmailQueued jd # ss) = jd # queued ss"
| "queued (s # ss) = queued ss"

fun notified :: "step list \<Rightarrow> notification list" where
  "notified [] = []"
| "notified (NotificationCreated n # ss) = n # notified ss"
| "notified (s # ss) = notified ss"

section \<open>Sample inputs\<close>

definition unset_env :: env where
  "unset_env = \<lparr>EMAIL_PROVIDER = None, EMAIL_FROM = None, GMAIL_USER = None,
     GMAIL_APP_PASSWORD = None, SMTP_HOST = None, SMTP_PORT = None, SMTP_USER = None,
     SMTP_PASS = None, SMTP_SECURE = None, EMAIL_RETRY_ATTEMPTS = None\<rparr>"

definition gmail_env :: env where
  "gmail_env = unset_env\<lparr>EMAIL_PROVIDER := Some ''gmail'', GMAIL_USER := Some ''you@gmail.com'',
                            GMAIL_APP_PASSWORD := Some ''abcd efgh ijkl mnop''\<rparr>"

definition gmail_env_no_password :: env where
  "gmail_env_no_password =
     unset_env\<lparr>EMAIL_PROVIDER := Some ''gmail'', GMAIL_USER := Some ''you@gmail.com''\<rparr>"

text \<open>A machine in UTC with the locale en-US, on 31 March 2026, and one in Paris with
  the locale en-GB; both know the two dates used below.\<close>

definition host_utc :: host where
  "host_utc = \<lparr>now = 1774947600000,
     toLocaleString =
       (\<lambda>v. if v = Some (Str ''2026-04-01T09:00:00Z'') then ''4/1/2026, 9:00:00 AM''
            else if v = Some (Str ''2026-04-01T10:00:00Z'') then ''4/1/2026, 10:00:00 AM''
            else ''Invalid Date''),
     getTime =
       (\<lambda>v. if v = Some (Str ''2026-04-01T09:00:00Z'') then Some 1775034000000
            else if v = Some (Str ''2026-04-01T10:00:00Z'') then Some 1775037600000
            else None),
     parseInt = (\<lambda>s. None)\<rparr>"

definition host_paris :: host where
  "host_paris = host_utc\<lparr>toLocaleString :=
     (\<lambda>v. if v = Some (Str ''2026-04-01T09:00:00Z'') then ''01/04/2026, 11:00:00''
          else if v = Some (Str ''2026-04-01T10:00:00Z'') then ''01/04/2026, 12:00:00''
          else ''Invalid Date'')\<rparr>"

definition refusing_mailer :: nodemailer where
  "refusing_mailer = \<lparr>sendMail = (\<lambda>tr m. Inl (Error ''connect ECONNREFUSED'')),
                       verify = (\<lambda>tr. Some (Error ''connect ECONNREFUSED''))\<rparr>"

definition accepting_mailer :: nodemailer where
  "accepting_mailer = \<lparr>sendMail = (\<lambda>tr m. Inr ''<1@scheduling-app.com>''),
                        verify = (\<lambda>tr. None)\<rparr>"

definition standup_payload :: payload where
  "standup_payload =
     [''title'' \<mapsto> Str ''Standup'', ''start'' \<mapsto> Str ''2026-04-01T09:00:00Z'']"

text \<open>The data of the scenario's job, of which \<open>standup_payload\<close> is what the
  template sees.\<close>

definition standup_data :: "json option" where
  "standup_data =
     Some (Obj [(''title'', Prim (Str ''Standup'')),
                (''start'', Prim (Str ''2026-04-01T09:00:00Z''))])"

definition standup_job :: job_data where
  "standup_job =
     \<lparr>email = ''a@example.com'', type = ''BOOKING_CONFIRMATION'', data = standup_data\<rparr>"

definition ada_data :: "json option" where
  "ada_data = Some (Obj [(''name'', Prim (Str ''Ada''))])"

definition welcome_job :: job_data where
  "welcome_job = \<lparr>email = ''a@example.com'', type = ''WELCOME'', data = ada_data\<rparr>"

text \<open>A name that has no string conversion.\<close>

definition unprintable_data :: "json option" where
  "unprintable_data = Some (Obj [(''name'', Obj [(''toString'', Prim Null)])])"

text \<open>A database with a cancelled booking of user 7 and a confirmed one of user 8.\<close>

definition sample_db :: db where
  "sample_db =
     \<lparr>bookings =
        [\<lparr>booking_id = 1, user_id = Some 7, title = ''Standup'',
          start_time = Some (Str ''2026-04-01T09:00:00Z''),
          end_time = Some (Str ''2026-04-01T10:00:00Z''),
          status = Some ''cancelled'', created_at = 1774940000000, updated_at = 1774941000000\<rparr>,
         \<lparr>booking_id = 2, user_id = Some 8, title = ''Review'',
          start_time = Some (Str ''2026-04-01T09:00:00Z''),
          end_time = Some (Str ''2026-04-01T10:00:00Z''),
          status = Some ''confirmed'', created_at = 1774940000000, updated_at = 1774940000000\<rparr>],
      notifications = [], bookings_seq = 3, notifications_seq = 1,
      clock = 1774947600000, available = 5\<rparr>"

definition standup_request :: request where
  "standup_request =
     \<lparr>user_id_of = 7, user_email = ''a@example.com'', body_title = Some (Str ''Standup''),
      body_start = Some (Str ''2026-04-01T09:00:00Z''),
      body_end = Some (Str ''2026-04-01T10:00:00Z''), params_id = 1\<rparr>"

section \<open>Properties of the templates\<close>

lemma templates_cases:
  "templates ty = Some t \<Longrightarrow>
     (ty = ''BOOKING_CONFIRMATION'' \<and> t = BOOKING_CONFIRMATION)
   \<or> (ty = ''BOOKING_CANCELLED'' \<and> t = BOOKING_CANCELLED)
   \<or> (ty = ''WELCOME'' \<and> t = WELCOME)
   \<or> (ty = ''ORG_INVITE'' \<and> t = ORG_INVITE)"
  by (simp add: templates_def split: if_splits)

lemma dom_templates: "dom templates = set template_keys"
  unfolding templates_def template_keys_def by (simp add: dom_def) blast

lemma welcome_registered: "templates ''WELCOME'' = Some WELCOME"
  by (simp add: templates_def)

lemma confirmation_registered: "templates ''BOOKING_CONFIRMATION'' = Some BOOKING_CONFIRMATION"
  by (simp add: templates_def)

lemma templates_get_own:
  "templates ty = Some t \<Longrightarrow> templates_get ty = Own (template_reads ty) t"
  by (simp add: templates_get_def)

text \<open>A template reads no property of the data but those listed for it.\<close>

lemma template_reads_cover:
  assumes "templates ty = Some t" and "\<forall>k \<in> set (template_reads ty). d k = d' k"
  shows "t h d = t h d'"
  using templates_cases [OF assms(1)] assms(2)
  by (auto simp: template_reads_def BOOKING_CONFIRMATION_def BOOKING_CANCELLED_def
        WELCOME_def ORG_INVITE_def)

lemma render_same_locale:
  assumes "templates ty = Some t" and "toLocaleString h1 = toLocaleString h2"
  shows "t h1 d = t h2 d"
  using templates_cases [OF assms(1)] assms(2)
  by (auto simp: BOOKING_CONFIRMATION_def BOOKING_CANCELLED_def WELCOME_def ORG_INVITE_def)

lemma render_subject_any_host:
  assumes "templates ty = Some t"
  shows "subject (t h1 d) = subject (t h2 d)"
  using templates_cases [OF assms(1)]
  by (auto simp: BOOKING_CONFIRMATION_def BOOKING_CANCELLED_def WELCOME_def ORG_INVITE_def)

lemma render_other_types_any_host:
  assumes "templates ty = Some t" and "ty \<noteq> ''BOOKING_CONFIRMATION''"
  shows "t h1 d = t h2 d"
  using templates_cases [OF assms(1)] assms(2)
  by (auto simp: BOOKING_CANCELLED_def WELCOME_def ORG_INVITE_def)

text \<open>
  C2, as amended. A template reads nothing but its payload and, in BOOKING_CONFIRMATION
  only, the local rendering of the two dates: for every registered type and every
  payload, two calls on machines that render dates alike give the same subject and html,
  whatever else differs between them; the subject of every type, and the whole message
  of the three other types, is the same on any two machines.
\<close>

theorem rendering_depends_on_payload_and_locale_only:
  assumes "templates ty = Some t"
  shows "(toLocaleString h1 = toLocaleString h2 \<longrightarrow> t h1 d = t h2 d)
       \<and> subject (t h1 d) = subject (t h2 d)
       \<and> (ty \<noteq> ''BOOKING_CONFIRMATION'' \<longrightarrow> t h1 d = t h2 d)"
  using render_same_locale [OF assms] render_subject_any_host [OF assms]
    render_other_types_any_host [OF assms]
  by blast

text \<open>The confirmation rendered twice on one machine at different times, and the
  welcome message rendered on two machines.\<close>

theorem rendering_depends_on_payload_and_locale_only_witness:
  "templates ''BOOKING_CONFIRMATION'' = Some BOOKING_CONFIRMATION
   \<and> toLocaleString host_utc = toLocaleString (host_utc\<lparr>now := 0\<rparr>)
   \<and> BOOKING_CONFIRMATION host_utc standup_payload
       = BOOKING_CONFIRMATION (host_utc\<lparr>now := 0\<rparr>) standup_payload
   \<and> templates ''WELCOME'' = Some WELCOME
   \<and> ''WELCOME'' \<noteq> ''BOOKING_CONFIRMATION''
   \<and> WELCOME host_utc standup_payload = WELCOME host_paris standup_payload"
  using rendering_depends_on_payload_and_locale_only
          [OF confirmation_registered, of host_utc "host_utc\<lparr>now := 0\<rparr>" standup_payload]
        rendering_depends_on_payload_and_locale_only
          [OF welcome_registered, of host_utc host_paris standup_payload]
  by (simp add: confirmation_registered welcome_registered)

text \<open>
  The same payload rendered by a worker in UTC and by a worker in Paris: the html of the
  confirmation differs in the two dates, so the message is not a function of the
  payload alone.
\<close>

theorem rendering_differs_between_locales:
  "templates ''BOOKING_CONFIRMATION'' = Some BOOKING_CONFIRMATION
   \<and> BOOKING_CONFIRMATION host_utc standup_payload
       \<noteq> BOOKING_CONFIRMATION host_paris standup_payload"
  by (simp add: confirmation_registered BOOKING_CONFIRMATION_def host_utc_def host_paris_def
        standup_payload_def)

section \<open>Properties of send\<close>

lemma unset_env_mock: "provider (email_config h unset_env) = ''mock''"
  by (simp add: email_config_def unset_env_def)

lemma gmail_provider: "provider (email_config h gmail_env) = ''gmail''"
  by (simp add: email_config_def gmail_env_def unset_env_def)

lemma gmail_transporter:
  "createTransporter (email_config h gmail_env)
     = Inr (Some (Gmail ''you@gmail.com'' ''abcd efgh ijkl mnop''))"
  by (simp add: createTransporter_def email_config_def gmail_env_def unset_env_def)

lemma gmail_no_password:
  "createTransporter (email_config h gmail_env_no_password)
     = Inl (Error ''Gmail provider requires GMAIL_USER and GMAIL_APP_PASSWORD in .env'')"
  by (simp add: createTransporter_def email_config_def gmail_env_no_password_def unset_env_def)

lemma now_utc: "digits (now host_utc) = ''1774947600000''"
  by (simp add: host_utc_def digits.simps)

lemma toPlainText_Str:
  "toPlainText (Some (Prim (Str s))) = Inr (trim (collapse_ws False (strip_tags s)))"
  by (simp add: toPlainText_def)


lemma standup_view: "as_payload standup_data = standup_payload"
  by (rule ext) (simp add: as_payload_def standup_data_def standup_payload_def)

lemma ada_renders: "template_throws (template_reads ''WELCOME'') ada_data = None"
  by (simp add: template_throws_def template_reads_def ada_data_def)

lemma standup_renders:
  "template_throws (template_reads ''BOOKING_CONFIRMATION'') standup_data = None"
  by (simp add: template_throws_def template_reads_def standup_data_def)

lemma call_own:
  assumes "template_throws reads d = None"
  shows "call_template (Own reads t) h d
           = Inr (Some (Prim (Str (subject (t h (as_payload d))))),
                  Some (Prim (Str (html (t h (as_payload d))))))"
  using assms by (simp add: call_template_def)

lemma call_own_throws:
  assumes "template_throws reads d = Some e"
  shows "call_template (Own reads t) h d = Inl e"
  using assms by (simp add: call_template_def)

lemma templates_get_defined: "templates ty = Some t \<Longrightarrow> templates_get ty \<noteq> Undefined"
  by (simp add: templates_get_own)

lemma send_registered_mock:
  assumes "templates ty = Some t" and "provider cfg = ''mock''"
    and "template_throws (template_reads ty) d = None"
  shows "send cfg nm h to ty d =
           (Inr \<lparr>success = True, outcome_provider = ''mock'',
                 messageId = ''mock-'' @ digits (now h)\<rparr>,
            [Sleep 500, LogMockEmail to (subject (t h (as_payload d))) ty])"
  using assms(2) templates_get_own [OF assms(1)]
  by (simp add: send_def call_own [OF assms(3)])

lemma send_template_throws:
  assumes "templates ty = Some t" and "template_throws (template_reads ty) d = Some e"
  shows "send cfg nm h to ty d = (Inl e, [])"
  using templates_get_own [OF assms(1)]
  by (simp add: send_def call_own_throws [OF assms(2)])

lemma send_unregistered:
  assumes "templates ty = None" and "ty \<notin> set object_prototype_keys"
  shows "send cfg nm h to ty d = (Inl (unknown_type ty), [])"
  using assms by (simp add: send_def templates_get_def)

lemma send_accepted:
  assumes "templates ty = Some t" and "provider cfg \<noteq> ''mock''"
    and "createTransporter cfg = Inr (Some tr)" and "\<And>m. sendMail nm tr m = Inr mid"
    and "template_throws (template_reads ty) d = None"
  shows "send cfg nm h to ty d =
           (Inr \<lparr>success = True, outcome_provider = provider cfg, messageId = mid\<rparr>,
            [CreateTransport tr,
             SendMail tr
               \<lparr>mail_from = ''\"Scheduling App\" <'' @ fromAddress cfg @ ''>'', mail_to = to,
                mail_subject = Some (Prim (Str (subject (t h (as_payload d))))),
                mail_html = Some (Prim (Str (html (t h (as_payload d))))),
                mail_text = trim (collapse_ws False (strip_tags (html (t h (as_payload d)))))\<rparr>,
             LogEmailSent to mid])"
  using assms(2,3,4) templates_get_own [OF assms(1)]
  by (simp add: send_def call_own [OF assms(5)] toPlainText_Str)

lemma send_refused:
  assumes "templates ty = Some t" and "provider cfg \<noteq> ''mock''"
    and "createTransporter cfg = Inr (Some tr)" and "\<And>m. sendMail nm tr m = Inl e"
    and "template_throws (template_reads ty) d = None"
  shows "fst (send cfg nm h to ty d) = Inl e"
  using assms(2,3,4) templates_get_own [OF assms(1)]
  by (simp add: send_def call_own [OF assms(5)] toPlainText_Str)

lemma createTransporter_error_provider:
  "createTransporter cfg = Inl e \<Longrightarrow> provider cfg \<noteq> ''mock''"
  by (auto simp: createTransporter_def split: if_splits)

lemma send_invalid_config:
  assumes "createTransporter cfg = Inl e" and "templates ty = Some t"
    and "template_throws (template_reads ty) d = None"
  shows "send cfg nm h to ty d = (Inl e, [])"
  using assms(1) createTransporter_error_provider [OF assms(1)] templates_get_own [OF assms(2)]
  by (simp add: send_def call_own [OF assms(3)])




text \<open>
  C3. With the mock provider, \<open>send('a@example.com', 'toString', {})\<close> does not raise
  "Unknown email type" although \<open>toString\<close> is not a key of \<open>templates\<close>: the read
  \<open>templates[type]\<close> finds the member inherited from \<open>Object.prototype\<close>, the test
  \<open>!templateFn\<close> lets it pass, nothing is rendered, and the call reports success for
  a message whose subject is \<open>undefined\<close>.
\<close>

theorem send_accepts_inherited_key:
  "''toString'' \<notin> dom templates
   \<and> send (email_config host_utc unset_env) refusing_mailer host_utc
        ''a@example.com'' ''toString'' (Some (Obj []))
       = (Inr \<lparr>success = True, outcome_provider = ''mock'',
               messageId = ''mock-1774947600000''\<rparr>,
          [Sleep 500, LogMockEmail ''a@example.com'' ''undefined'' ''toString''])"
proof -
  have absent: "templates ''toString'' = None"
    by (simp add: templates_def)
  have got: "templates_get ''toString'' = Inherited ''toString''"
    by (simp add: templates_get_def absent object_prototype_keys_def)
  show ?thesis
    by (simp add: send_def got call_template_def unset_env_mock now_utc absent domIff)
qed



text \<open>
  C9, as amended. With the mock provider, \<open>send\<close> succeeds for every registered type,
  every target and every payload on which the template does not throw, that is, data
  that is neither \<open>undefined\<close> nor \<open>null\<close> and in which each value the template
  embeds has a string conversion: it returns success, the provider \<open>mock\<close> and a
  message id that is \<open>mock-\<close> followed by the clock, and nothing in what it does
  creates a transporter, sends a mail or verifies a connection. On a payload on which
  the template throws, the call fails with what the template threw. Hence a call that
  fails in mock mode was given a type that is not registered or a payload on which the
  template throws.
\<close>

theorem send_mock_mode:
  assumes "provider cfg = ''mock''"
  shows "(ty \<in> dom templates \<and> template_throws (template_reads ty) d = None \<longrightarrow>
            fst (send cfg nm h to ty d)
              = Inr \<lparr>success = True, outcome_provider = ''mock'',
                     messageId = ''mock-'' @ digits (now h)\<rparr>
            \<and> list_all (\<lambda>e. \<not> uses_transport e) (snd (send cfg nm h to ty d)))
       \<and> (\<forall>e. ty \<in> dom templates \<and> template_throws (template_reads ty) d = Some e \<longrightarrow>
            send cfg nm h to ty d = (Inl e, []))
       \<and> (\<forall>e. fst (send cfg nm h to ty d) = Inl e \<longrightarrow>
            ty \<notin> dom templates \<or> template_throws (template_reads ty) d \<noteq> None)"
proof -
  have registered: "fst (send cfg nm h to ty d)
              = Inr \<lparr>success = True, outcome_provider = ''mock'',
                     messageId = ''mock-'' @ digits (now h)\<rparr>
            \<and> list_all (\<lambda>e. \<not> uses_transport e) (snd (send cfg nm h to ty d))"
    if "ty \<in> dom templates" and r: "template_throws (template_reads ty) d = None"
  proof -
    from that obtain t where "templates ty = Some t" by auto
    from send_registered_mock [OF this assms r] show ?thesis by simp
  qed
  have throws: "send cfg nm h to ty d = (Inl e, [])"
    if "ty \<in> dom templates" and r: "template_throws (template_reads ty) d = Some e" for e
  proof -
    from that obtain t where "templates ty = Some t" by auto
    from send_template_throws [OF this r] show ?thesis .
  qed
  have fails: "ty \<notin> dom templates \<or> template_throws (template_reads ty) d \<noteq> None"
    if f: "fst (send cfg nm h to ty d) = Inl e" for e
  proof (rule ccontr)
    assume "\<not> (ty \<notin> dom templates \<or> template_throws (template_reads ty) d \<noteq> None)"
    then have "ty \<in> dom templates" and "template_throws (template_reads ty) d = None"
      by simp_all
    from registered [OF this] f show False by simp
  qed
  from registered throws fails show ?thesis by blast
qed

text \<open>A welcome mail with no provider configured.\<close>

theorem send_mock_mode_witness:
  "provider (email_config host_utc unset_env) = ''mock''
   \<and> ''WELCOME'' \<in> dom templates
   \<and> template_throws (template_reads ''WELCOME'') ada_data = None
   \<and> fst (send (email_config host_utc unset_env) refusing_mailer host_utc ''a@example.com''
            ''WELCOME'' ada_data)
       = Inr \<lparr>success = True, outcome_provider = ''mock'', messageId = ''mock-1774947600000''\<rparr>
   \<and> list_all (\<lambda>e. \<not> uses_transport e)
        (snd (send (email_config host_utc unset_env) refusing_mailer host_utc ''a@example.com''
                ''WELCOME'' ada_data))"
proof -
  have w: "''WELCOME'' \<in> dom templates"
    using welcome_registered by blast
  from send_mock_mode [OF unset_env_mock, where h1 = host_utc and h = host_utc
         and ty = "''WELCOME''" and nm = refusing_mailer and to = "''a@example.com''"
         and d = ada_data] w ada_renders
  show ?thesis
    by (simp add: unset_env_mock now_utc)
qed

text \<open>
  The welcome mail in mock mode for a job stored without data, for one whose data is
  \<open>null\<close>, and for one whose name is an object with a property \<open>toString\<close>: the
  type is registered and each call fails with a TypeError, before anything is logged.
\<close>

theorem send_mock_mode_fails_on_payload:
  "provider (email_config host_utc unset_env) = ''mock''
   \<and> ''WELCOME'' \<in> dom templates
   \<and> send (email_config host_utc unset_env) refusing_mailer host_utc ''a@example.com''
        ''WELCOME'' None
       = (Inl (TypeError ''Cannot read properties of undefined''), [])
   \<and> send (email_config host_utc unset_env) refusing_mailer host_utc ''a@example.com''
        ''WELCOME'' (Some (Prim Null))
       = (Inl (TypeError ''Cannot read properties of null''), [])
   \<and> send (email_config host_utc unset_env) refusing_mailer host_utc ''a@example.com''
        ''WELCOME'' unprintable_data
       = (Inl (TypeError ''Cannot convert object to primitive value''), [])"
proof -
  have w: "''WELCOME'' \<in> dom templates"
    using welcome_registered by blast
  have a: "template_throws (template_reads ''WELCOME'') None
             = Some (TypeError ''Cannot read properties of undefined'')"
    by (simp add: template_throws_def)
  have b: "template_throws (template_reads ''WELCOME'') (Some (Prim Null))
             = Some (TypeError ''Cannot read properties of null'')"
    by (simp add: template_throws_def)
  have c: "template_throws (template_reads ''WELCOME'') unprintable_data
             = Some (TypeError ''Cannot convert object to primitive value'')"
    by (simp add: template_throws_def template_reads_def unprintable_data_def)
  show ?thesis
    by (simp add: unset_env_mock w send_template_throws [OF welcome_registered a]
          send_template_throws [OF welcome_registered b]
          send_template_throws [OF welcome_registered c])
qed

section \<open>Properties of the worker\<close>

lemma processor_fst:
  "fst (processor cfg nm h j)
     = fst (send cfg nm h (email (payload_of j)) (type (payload_of j)) (data (payload_of j)))"
  by (simp add: processor_def split: prod.splits sum.splits)

lemma processor_invalid_config:
  assumes "createTransporter cfg = Inl e" and "templates (type (payload_of j)) = Some t"
    and "template_throws (template_reads (type (payload_of j))) (data (payload_of j)) = None"
  shows "fst (processor cfg nm h j) = Inl e"
  by (simp add: processor_fst send_invalid_config [OF assms])

lemma invalid_config_logged:
  assumes "createTransporter cfg = Inl e"
  shows "verifyConnection cfg nm = ([LogConnectionFailed (provider cfg) (message e)], [])"
  using assms createTransporter_error_provider [OF assms]
  by (simp add: verifyConnection_def)

lemma createTransporter_some_provider:
  "createTransporter cfg = Inr (Some tr) \<Longrightarrow> provider cfg \<noteq> ''mock''"
  by (auto simp: createTransporter_def split: if_splits)

lemma unreachable_logged:
  assumes "createTransporter cfg = Inr (Some tr)" and "verify nm tr = Some e"
  shows "verifyConnection cfg nm
           = ([CreateTransport tr, Verify tr], [LogConnectionFailed (provider cfg) (message e)])"
  using assms createTransporter_some_provider [OF assms(1)]
  by (simp add: verifyConnection_def)

text \<open>
  C4, as amended. An invalid transport configuration does not keep the worker from
  starting. Whatever the configuration and the mail server, the worker ends its start
  with the processor registered. When \<open>createTransporter\<close> rejects the configuration,
  the start logs the failure and goes on; every job of a registered type whose template
  does not throw then fails when it is processed, with the error of the configuration.
  When the mail server refuses the connection, the failure is logged only after the
  worker has announced that it listens and has registered the processor, since
  \<open>verifyConnection\<close> is not awaited.
\<close>

theorem worker_starts_whatever_the_transport:
  "state (worker_start cfg nm) = Processing
   \<and> (\<forall>e. createTransporter cfg = Inl e \<longrightarrow>
         console (worker_start cfg nm)
           = [LogWorkerStarted, LogConnectionFailed (provider cfg) (message e), LogListening,
              ProcessorRegistered]
         \<and> (\<forall>h j t. templates (type (payload_of j)) = Some t
                  \<and> template_throws (template_reads (type (payload_of j))) (data (payload_of j))
                      = None \<longrightarrow>
                fst (processor cfg nm h j) = Inl e))
   \<and> (\<forall>tr e. createTransporter cfg = Inr (Some tr) \<and> verify nm tr = Some e \<longrightarrow>
         console (worker_start cfg nm)
           = [LogWorkerStarted, CreateTransport tr, Verify tr, LogListening,
              ProcessorRegistered, LogConnectionFailed (provider cfg) (message e)])"
  using processor_invalid_config [of cfg _ _ _ nm]
  by (auto simp: worker_start_def invalid_config_logged unreachable_logged)

text \<open>Gmail without its password, and Gmail with a server that refuses the
  connection.\<close>

theorem worker_starts_whatever_the_transport_witness:
  "createTransporter (email_config host_utc gmail_env_no_password)
     = Inl (Error ''Gmail provider requires GMAIL_USER and GMAIL_APP_PASSWORD in .env'')
   \<and> templates (type (payload_of \<lparr>job_id = 1, payload_of = welcome_job,
          opts = \<lparr>attempts = None, backoff = None\<rparr>, attempt_count = 0,
          job_status = IN_FLIGHT\<rparr>)) = Some WELCOME
   \<and> template_throws (template_reads ''WELCOME'') (data welcome_job) = None
   \<and> fst (processor (email_config host_utc gmail_env_no_password) refusing_mailer host_utc
            \<lparr>job_id = 1, payload_of = welcome_job,
             opts = \<lparr>attempts = None, backoff = None\<rparr>, attempt_count = 0,
             job_status = IN_FLIGHT\<rparr>)
       = Inl (Error ''Gmail provider requires GMAIL_USER and GMAIL_APP_PASSWORD in .env'')
   \<and> createTransporter (email_config host_utc gmail_env)
       = Inr (Some (Gmail ''you@gmail.com'' ''abcd efgh ijkl mnop''))
   \<and> verify refusing_mailer (Gmail ''you@gmail.com'' ''abcd efgh ijkl mnop'')
       = Some (Error ''connect ECONNREFUSED'')
   \<and> console (worker_start (email_config host_utc gmail_env) refusing_mailer)
       = [LogWorkerStarted, CreateTransport (Gmail ''you@gmail.com'' ''abcd efgh ijkl mnop''),
          Verify (Gmail ''you@gmail.com'' ''abcd efgh ijkl mnop''), LogListening,
          ProcessorRegistered, LogConnectionFailed ''gmail'' ''connect ECONNREFUSED'']"
proof -
  let ?j = "\<lparr>job_id = 1, payload_of = welcome_job,
          opts = \<lparr>attempts = None, backoff = None\<rparr>, attempt_count = 0,
          job_status = IN_FLIGHT\<rparr>"
  have t: "templates (type (payload_of ?j)) = Some WELCOME"
    by (simp add: welcome_job_def welcome_registered)
  have r: "template_throws (template_reads ''WELCOME'') (data welcome_job) = None"
    by (simp add: welcome_job_def ada_renders)
  have r': "template_throws (template_reads (type (payload_of ?j))) (data (payload_of ?j)) = None"
    using r by (simp add: welcome_job_def)
  have v: "verify refusing_mailer (Gmail ''you@gmail.com'' ''abcd efgh ijkl mnop'')
             = Some (Error ''connect ECONNREFUSED'')"
    by (simp add: refusing_mailer_def)
  from worker_starts_whatever_the_transport
         [of "email_config host_utc gmail_env_no_password" refusing_mailer]
       gmail_no_password [of host_utc] t r'
  have one: "fst (processor (email_config host_utc gmail_env_no_password) refusing_mailer host_utc ?j)
       = Inl (Error ''Gmail provider requires GMAIL_USER and GMAIL_APP_PASSWORD in .env'')"
    by blast
  from worker_starts_whatever_the_transport
         [of "email_config host_utc gmail_env" refusing_mailer]
       gmail_transporter [of host_utc] v
  have two: "console (worker_start (email_config host_utc gmail_env) refusing_mailer)
       = [LogWorkerStarted, CreateTransport (Gmail ''you@gmail.com'' ''abcd efgh ijkl mnop''),
          Verify (Gmail ''you@gmail.com'' ''abcd efgh ijkl mnop''), LogListening,
          ProcessorRegistered,
          LogConnectionFailed (provider (email_config host_utc gmail_env))
            (message (Error ''connect ECONNREFUSED''))]"
    by blast
  from one two t r v gmail_no_password [of host_utc] gmail_transporter [of host_utc]
  show ?thesis
    by (simp add: gmail_provider)
qed

text \<open>
  The worker started with Gmail configured and no password: the configuration is
  rejected, and yet the worker is processing jobs, the first of which fails at run
  time.
\<close>

theorem worker_starts_with_invalid_config:
  "createTransporter (email_config host_utc gmail_env_no_password)
     = Inl (Error ''Gmail provider requires GMAIL_USER and GMAIL_APP_PASSWORD in .env'')
   \<and> state (worker_start (email_config host_utc gmail_env_no_password) refusing_mailer)
       = Processing
   \<and> fst (processor (email_config host_utc gmail_env_no_password) refusing_mailer host_utc
            \<lparr>job_id = 1, payload_of = welcome_job,
             opts = \<lparr>attempts = None, backoff = None\<rparr>, attempt_count = 0,
             job_status = IN_FLIGHT\<rparr>)
       = Inl (Error ''Gmail provider requires GMAIL_USER and GMAIL_APP_PASSWORD in .env'')"
proof -
  let ?j = "\<lparr>job_id = 1, payload_of = welcome_job,
          opts = \<lparr>attempts = None, backoff = None\<rparr>, attempt_count = 0,
          job_status = IN_FLIGHT\<rparr>"
  have t: "templates (type (payload_of ?j)) = Some WELCOME"
    by (simp add: welcome_job_def welcome_registered)
  have r: "template_throws (template_reads (type (payload_of ?j))) (data (payload_of ?j)) = None"
    by (simp add: welcome_job_def ada_renders)
  from processor_invalid_config [OF gmail_no_password t r]
  show ?thesis
    by (simp add: gmail_no_password worker_start_def)
qed

section \<open>Properties of the queue\<close>

lemma claims_append: "claims (xs @ ys) = claims xs @ claims ys"
  by (induction xs rule: claims.induct) simp_all

lemma requeues_append: "requeues (xs @ ys) = requeues xs @ requeues ys"
  by (induction xs rule: requeues.induct) simp_all

lemma acks_append: "acks (xs @ ys) = acks xs @ acks ys"
  by (induction xs rule: acks.induct) simp_all

lemma sent_subjects_append: "sent_subjects (xs @ ys) = sent_subjects xs @ sent_subjects ys"
  by (induction xs rule: sent_subjects.induct) simp_all

lemma send_no_queue_effects:
  "claims (snd (send cfg nm h to ty d)) = [] \<and> requeues (snd (send cfg nm h to ty d)) = []
   \<and> acks (snd (send cfg nm h to ty d)) = []"
  by (simp add: send_def split: lookup.splits sum.splits prod.splits option.splits)

lemma processor_no_queue_effects:
  "claims (snd (processor cfg nm h j)) = [] \<and> requeues (snd (processor cfg nm h j)) = []
   \<and> acks (snd (processor cfg nm h j)) = []"
  using send_no_queue_effects [of cfg nm h "email (payload_of j)" "type (payload_of j)" "data (payload_of j)"]
  by (auto simp: processor_def claims_append requeues_append acks_append split: prod.splits sum.splits)

lemma processor_success:
  assumes "send cfg nm h (email (payload_of j)) (type (payload_of j)) (data (payload_of j)) = (Inr r, effs)"
  shows "processor cfg nm h j
           = (Inr r, LogProcessing (job_id j) (type (payload_of j)) (email (payload_of j)) # effs
                       @ [LogDone (job_id j) (outcome_provider r) (messageId r)])"
  using assms by (simp add: processor_def)

lemma run_job_success:
  assumes "job_status j = PENDING" and "fst (handler (attempt_count j) (claim j)) = Inr r"
  shows "run_job handler j =
           (j\<lparr>job_status := COMPLETED\<rparr>,
            Claimed (job_id j) (attempt_count j) # snd (handler (attempt_count j) (claim j))
              @ [Acked (job_id j), LogCompleted (job_id j)])"
  using assms by (subst run_job.simps) (simp add: ack_def claim_def)

lemma run_job_last_attempt:
  assumes "job_status j = PENDING" and "fst (handler (attempt_count j) (claim j)) = Inl e"
    and "max_attempts j \<le> attempt_count j + 1"
  shows "run_job handler j =
           (j\<lparr>attempt_count := attempt_count j + 1, job_status := FAILED_PERMANENT\<rparr>,
            Claimed (job_id j) (attempt_count j) # snd (handler (attempt_count j) (claim j))
              @ [FailedPermanent (job_id j), LogFailed (job_id j) (attempt_count j + 1) (message e)])"
  using assms by (subst run_job.simps) (simp add: nack_def claim_def max_attempts_def)

lemma run_job_retry:
  assumes "job_status j = PENDING" and "fst (handler (attempt_count j) (claim j)) = Inl e"
    and "attempt_count j + 1 < max_attempts j"
  shows "run_job handler j =
           (fst (run_job handler (j\<lparr>attempt_count := attempt_count j + 1\<rparr>)),
            Claimed (job_id j) (attempt_count j) # snd (handler (attempt_count j) (claim j))
              @ [Requeued (job_id j),
                 LogFailed (job_id j) (attempt_count j + 1) (message e)]
              @ snd (run_job handler (j\<lparr>attempt_count := attempt_count j + 1\<rparr>)))"
proof -
  have n: "nack (claim j) True = j\<lparr>attempt_count := attempt_count j + 1\<rparr>"
    using assms(1,3) by (simp add: nack_def claim_def max_attempts_def)
  show ?thesis
    using assms(1,2) by (subst run_job.simps) (simp add: n)
qed

lemma max_attempts_update [simp]:
  "max_attempts (j\<lparr>attempt_count := n\<rparr>) = max_attempts j"
  "max_attempts (j\<lparr>job_status := s\<rparr>) = max_attempts j"
  by (simp_all add: max_attempts_def)

lemma run_job_always_fails:
  assumes fails: "\<And>n j'. payload_of j' = p \<Longrightarrow> \<exists>e. fst (handler n j') = Inl e"
    and quiet: "\<And>n j'. claims (snd (handler n j')) = [] \<and> requeues (snd (handler n j')) = []
                          \<and> acks (snd (handler n j')) = []"
  shows "payload_of j = p \<Longrightarrow> job_status j = PENDING \<Longrightarrow> attempt_count j < max_attempts j \<Longrightarrow>
         fst (run_job handler j) = j\<lparr>attempt_count := max_attempts j, job_status := FAILED_PERMANENT\<rparr>
         \<and> claims (snd (run_job handler j)) = [attempt_count j ..< max_attempts j]
         \<and> length (requeues (snd (run_job handler j))) = max_attempts j - attempt_count j - 1
         \<and> acks (snd (run_job handler j)) = []"
proof (induction "max_attempts j - attempt_count j" arbitrary: j)
  case 0
  then show ?case by simp
next
  case (Suc k)
  have "payload_of (claim j) = p"
    using Suc.prems(1) by (simp add: claim_def)
  then obtain e where e: "fst (handler (attempt_count j) (claim j)) = Inl e"
    using fails by blast
  show ?case
  proof (cases "attempt_count j + 1 < max_attempts j")
    case True
    let ?j' = "j\<lparr>attempt_count := attempt_count j + 1\<rparr>"
    have k: "k = max_attempts ?j' - attempt_count ?j'"
      using Suc.hyps(2) by simp
    have ih: "fst (run_job handler ?j')
                = ?j'\<lparr>attempt_count := max_attempts ?j', job_status := FAILED_PERMANENT\<rparr>
              \<and> claims (snd (run_job handler ?j')) = [attempt_count ?j' ..< max_attempts ?j']
              \<and> length (requeues (snd (run_job handler ?j')))
                  = max_attempts ?j' - attempt_count ?j' - 1
              \<and> acks (snd (run_job handler ?j')) = []"
      using Suc.hyps(1) [OF k] Suc.prems(1,2) True by simp
    have split1: "[attempt_count j ..< max_attempts j]
                    = attempt_count j # [attempt_count j + 1 ..< max_attempts j]"
      using Suc.prems(3) by (simp add: upt_conv_Cons)
    show ?thesis
      using ih quiet [of "attempt_count j" "claim j"] True
      by (simp add: run_job_retry [where j = j and handler = handler and e = e, OF Suc.prems(2) e True]
            claims_append requeues_append acks_append split1)
  next
    case False
    then have last: "max_attempts j \<le> attempt_count j + 1" by simp
    with Suc.prems(3) have m: "max_attempts j = attempt_count j + 1" by simp
    show ?thesis
      using quiet [of "attempt_count j" "claim j"]
      by (simp add: run_job_last_attempt [where j = j and handler = handler and e = e, OF Suc.prems(2) e last]
            claims_append requeues_append acks_append m)
  qed
qed

lemma added_job:
  "jobs (emailQueue_add q jd) =
     jobs q @ [\<lparr>job_id = next_id q, payload_of = jd, opts = job_options (defaultJobOptions q) None,
                attempt_count = 0, job_status = PENDING\<rparr>]"
  by (simp add: emailQueue_add_def enqueue_def)

lemma no_options: "job_options None None = \<lparr>attempts = None, backoff = None\<rparr>"
  by (simp add: job_options_def)

lemma first_added:
  "last (jobs (emailQueue_add emailQueue jd))
     = \<lparr>job_id = 1, payload_of = jd, opts = \<lparr>attempts = None, backoff = None\<rparr>,
        attempt_count = 0, job_status = PENDING\<rparr>"
  by (simp add: added_job emailQueue_def no_options)

lemma refused_welcome:
  assumes "payload_of j = welcome_job"
  shows "fst (processor (email_config host_utc gmail_env) refusing_mailer host_utc j)
           = Inl (Error ''connect ECONNREFUSED'')"
proof -
  have "fst (send (email_config host_utc gmail_env) refusing_mailer host_utc ''a@example.com''
               ''WELCOME'' ada_data)
          = Inl (Error ''connect ECONNREFUSED'')"
    by (rule send_refused [OF welcome_registered _ gmail_transporter _ ada_renders])
       (simp_all add: gmail_provider refusing_mailer_def)
  then show ?thesis
    by (simp add: processor_fst assms welcome_job_def)
qed

lemma retry_default: "retryAttempts (email_config h (e\<lparr>EMAIL_RETRY_ATTEMPTS := None\<rparr>)) = 3"
  by (simp add: email_config_def parseInt_or_def)

lemma gmail_retry: "retryAttempts (email_config host_utc gmail_env) = 3"
  by (simp add: email_config_def parseInt_or_def gmail_env_def unset_env_def)

text \<open>
  C1. A welcome job whose mail server refuses every connection, with the retry count
  left at its configured value of 3 (\<open>EMAIL_RETRY_ATTEMPTS\<close> unset): the job is
  claimed once and then failed permanently with an attempt count of 1, not 3. The
  setting \<open>retryAttempts\<close> is read by nothing: the queue is created with no default
  job options and the producers give none, so the job runs on the single attempt of the
  library's default.
\<close>

theorem configured_retry_count_is_not_used:
  "retryAttempts (email_config host_utc gmail_env) = 3
   \<and> fst (run_job (\<lambda>n. processor (email_config host_utc gmail_env) refusing_mailer host_utc)
            (last (jobs (emailQueue_add emailQueue welcome_job))))
       = \<lparr>job_id = 1, payload_of = welcome_job, opts = \<lparr>attempts = None, backoff = None\<rparr>,
          attempt_count = 1, job_status = FAILED_PERMANENT\<rparr>
   \<and> claims (snd (run_job (\<lambda>n. processor (email_config host_utc gmail_env) refusing_mailer host_utc)
            (last (jobs (emailQueue_add emailQueue welcome_job))))) = [0]"
proof -
  let ?h = "\<lambda>n::nat. processor (email_config host_utc gmail_env) refusing_mailer host_utc"
  let ?j = "\<lparr>job_id = 1, payload_of = welcome_job, opts = \<lparr>attempts = None, backoff = None\<rparr>,
             attempt_count = 0, job_status = PENDING\<rparr>"
  have m: "max_attempts ?j = 1"
    by (simp add: max_attempts_def)
  have "fst (run_job ?h ?j) = ?j\<lparr>attempt_count := max_attempts ?j, job_status := FAILED_PERMANENT\<rparr>
        \<and> claims (snd (run_job ?h ?j)) = [attempt_count ?j ..< max_attempts ?j]"
    using run_job_always_fails [where handler = ?h and p = welcome_job and j = ?j]
      refused_welcome processor_no_queue_effects m
    by simp
  then show ?thesis
    by (simp add: first_added gmail_retry max_attempts_def)
qed

lemma emailQueue_add_defaults: "defaultJobOptions (emailQueue_add q jd) = defaultJobOptions q"
  by (simp add: emailQueue_add_def enqueue_def)

lemma added_without_options:
  assumes "defaultJobOptions q = None"
  shows "opts (last (jobs (emailQueue_add q jd))) = \<lparr>attempts = None, backoff = None\<rparr>"
  using assms by (simp add: added_job no_options)

lemma post_queue:
  "queue_after (post_bookings h d q r) = q
   \<or> (\<exists>jd. queue_after (post_bookings h d q r) = emailQueue_add q jd)"
  by (auto simp: post_bookings_def split: option.splits prod.splits sum.splits)

lemma delete_queue:
  "queue_after (delete_booking d q r) = q
   \<or> (\<exists>jd. queue_after (delete_booking d q r) = emailQueue_add q jd)"
  by (auto simp: delete_booking_def split: option.splits prod.splits sum.splits)

lemma confirmation_subject:
  \<open>subject (BOOKING_CONFIRMATION h d)
     = [CHR 0xE2, CHR 0x9C, CHR 0x85] @ '' Booking Confirmed: "'' @ js_string (d ''title'') @ ''"''\<close>
  by (simp add: BOOKING_CONFIRMATION_def)

lemma standup_subject:
  \<open>subject (BOOKING_CONFIRMATION h standup_payload)
     = [CHR 0xE2, CHR 0x9C, CHR 0x85] @ '' Booking Confirmed: "Standup"''\<close>
  by (simp add: confirmation_subject standup_payload_def)

lemma standup_mock:
  assumes "payload_of j = standup_job"
  shows \<open>processor (email_config host_utc unset_env) nm host_utc j
           = (Inr \<lparr>success = True, outcome_provider = ''mock'', messageId = ''mock-1774947600000''\<rparr>,
              [LogProcessing (job_id j) ''BOOKING_CONFIRMATION'' ''a@example.com'', Sleep 500,
               LogMockEmail ''a@example.com''
                 ([CHR 0xE2, CHR 0x9C, CHR 0x85] @ '' Booking Confirmed: "Standup"'')
                 ''BOOKING_CONFIRMATION'',
               LogDone (job_id j) ''mock'' ''mock-1774947600000''])\<close>
proof -
  have "send (email_config host_utc unset_env) nm host_utc ''a@example.com''
          ''BOOKING_CONFIRMATION'' standup_data
        = (Inr \<lparr>success = True, outcome_provider = ''mock'', messageId = ''mock-1774947600000''\<rparr>,
           [Sleep 500,
            LogMockEmail ''a@example.com''
              ([CHR 0xE2, CHR 0x9C, CHR 0x85] @ '' Booking Confirmed: \"Standup\"'')
              ''BOOKING_CONFIRMATION''])"
    using send_registered_mock [OF confirmation_registered unset_env_mock standup_renders]
    by (simp only: standup_view standup_subject now_utc append.simps)
  then show ?thesis
    by (simp add: processor_def assms standup_job_def)
qed

lemma standup_gmail:
  assumes "payload_of j = standup_job"
  shows \<open>fst (processor (email_config host_utc gmail_env) accepting_mailer host_utc j)
            = Inr \<lparr>success = True, outcome_provider = ''gmail'', messageId = ''<1@scheduling-app.com>''\<rparr>
         \<and> sent_subjects (snd (processor (email_config host_utc gmail_env) accepting_mailer host_utc j))
            = [Some (Prim (Str ([CHR 0xE2, CHR 0x9C, CHR 0x85] @ '' Booking Confirmed: "Standup"'')))]\<close>
proof -
  have "send (email_config host_utc gmail_env) accepting_mailer host_utc ''a@example.com''
          ''BOOKING_CONFIRMATION'' standup_data
        = (Inr \<lparr>success = True, outcome_provider = provider (email_config host_utc gmail_env),
                messageId = ''<1@scheduling-app.com>''\<rparr>,
           [CreateTransport (Gmail ''you@gmail.com'' ''abcd efgh ijkl mnop''),
            SendMail (Gmail ''you@gmail.com'' ''abcd efgh ijkl mnop'')
               \<lparr>mail_from = ''\"Scheduling App\" <'' @ fromAddress (email_config host_utc gmail_env) @ ''>'',
                mail_to = ''a@example.com'',
                mail_subject = Some (Prim (Str (subject (BOOKING_CONFIRMATION host_utc standup_payload)))),
                mail_html = Some (Prim (Str (html (BOOKING_CONFIRMATION host_utc standup_payload)))),
                mail_text = trim (collapse_ws False (strip_tags (html (BOOKING_CONFIRMATION host_utc standup_payload))))\<rparr>,
             LogEmailSent ''a@example.com'' ''<1@scheduling-app.com>''])"
    using send_accepted [OF confirmation_registered _ gmail_transporter _ standup_renders,
            where nm = accepting_mailer and mid = "''<1@scheduling-app.com>''"
              and h = host_utc and to = "''a@example.com''"]
    by (simp add: gmail_provider accepting_mailer_def standup_view)
  then show ?thesis
    by (simp add: processor_def assms standup_job_def standup_subject gmail_provider)
qed

text \<open>
  C8. The subject of BOOKING_CONFIRMATION embeds \<open>data.title\<close> for every payload.
  The job of the scenario, enqueued on the empty queue and processed with the mock
  provider, is claimed once, \<open>send\<close> runs once with a subject that contains
  "Standup", and the job is acknowledged once and ends COMPLETED with its attempt count
  still 0. The same holds with Gmail and a server that accepts: one mail is handed over,
  with that subject.
\<close>

theorem happy_path:
  \<open>(\<forall>h d. subject (BOOKING_CONFIRMATION h d)
            = [CHR 0xE2, CHR 0x9C, CHR 0x85] @ '' Booking Confirmed: "'' @ js_string (d ''title'') @ ''"'')
   \<and> run_job (\<lambda>n. processor (email_config host_utc unset_env) refusing_mailer host_utc)
        (last (jobs (emailQueue_add emailQueue standup_job)))
       = (\<lparr>job_id = 1, payload_of = standup_job, opts = \<lparr>attempts = None, backoff = None\<rparr>,
           attempt_count = 0, job_status = COMPLETED\<rparr>,
          [Claimed 1 0, LogProcessing 1 ''BOOKING_CONFIRMATION'' ''a@example.com'', Sleep 500,
           LogMockEmail ''a@example.com''
             ([CHR 0xE2, CHR 0x9C, CHR 0x85] @ '' Booking Confirmed: "Standup"'')
             ''BOOKING_CONFIRMATION'',
           LogDone 1 ''mock'' ''mock-1774947600000'', Acked 1, LogCompleted 1])
   \<and> fst (run_job (\<lambda>n. processor (email_config host_utc gmail_env) accepting_mailer host_utc)
            (last (jobs (emailQueue_add emailQueue standup_job))))
       = \<lparr>job_id = 1, payload_of = standup_job, opts = \<lparr>attempts = None, backoff = None\<rparr>,
          attempt_count = 0, job_status = COMPLETED\<rparr>
   \<and> sent_subjects (snd (run_job (\<lambda>n. processor (email_config host_utc gmail_env) accepting_mailer host_utc)
            (last (jobs (emailQueue_add emailQueue standup_job)))))
       = [Some (Prim (Str ([CHR 0xE2, CHR 0x9C, CHR 0x85] @ '' Booking Confirmed: "Standup"'')))]
   \<and> claims (snd (run_job (\<lambda>n. processor (email_config host_utc gmail_env) accepting_mailer host_utc)
            (last (jobs (emailQueue_add emailQueue standup_job))))) = [0]
   \<and> acks (snd (run_job (\<lambda>n. processor (email_config host_utc gmail_env) accepting_mailer host_utc)
            (last (jobs (emailQueue_add emailQueue standup_job))))) = [1]\<close>
proof -
  let ?j = "\<lparr>job_id = 1, payload_of = standup_job, opts = \<lparr>attempts = None, backoff = None\<rparr>,
             attempt_count = 0, job_status = PENDING\<rparr>"
  let ?m = "\<lambda>n::nat. processor (email_config host_utc unset_env) refusing_mailer host_utc"
  let ?g = "\<lambda>n::nat. processor (email_config host_utc gmail_env) accepting_mailer host_utc"
  have pm: "payload_of (claim ?j) = standup_job"
    by (simp add: claim_def)
  have fm: "fst (?m (attempt_count ?j) (claim ?j))
              = Inr \<lparr>success = True, outcome_provider = ''mock'',
                     messageId = ''mock-1774947600000''\<rparr>"
    by (simp add: standup_mock claim_def)
  have fg: "fst (?g (attempt_count ?j) (claim ?j))
              = Inr \<lparr>success = True, outcome_provider = ''gmail'',
                     messageId = ''<1@scheduling-app.com>''\<rparr>"
    by (simp add: standup_gmail claim_def)
  have mock: "run_job ?m ?j =
           (?j\<lparr>job_status := COMPLETED\<rparr>,
            Claimed (job_id ?j) (attempt_count ?j) # snd (?m (attempt_count ?j) (claim ?j))
              @ [Acked (job_id ?j), LogCompleted (job_id ?j)])"
    by (rule run_job_success [where j = ?j and handler = ?m, OF _ fm]) simp
  have real: "run_job ?g ?j =
           (?j\<lparr>job_status := COMPLETED\<rparr>,
            Claimed (job_id ?j) (attempt_count ?j) # snd (?g (attempt_count ?j) (claim ?j))
              @ [Acked (job_id ?j), LogCompleted (job_id ?j)])"
    by (rule run_job_success [where j = ?j and handler = ?g, OF _ fg]) simp
  have q: "\<And>j. claims (snd (?g 0 j)) = [] \<and> acks (snd (?g 0 j)) = []"
    using processor_no_queue_effects by blast
  show ?thesis
    unfolding first_added mock real
    using q
    by (simp add: confirmation_subject standup_mock standup_gmail claim_def
          sent_subjects_append claims_append acks_append)
qed


section \<open>Properties of the booking routes\<close>

lemma emailQueue_add_changes: "emailQueue_add q jd \<noteq> q"
proof
  assume "emailQueue_add q jd = q"
  then have "length (jobs (emailQueue_add q jd)) = length (jobs q)" by simp
  then show False by (simp add: added_job)
qed

lemma notification_keeps_bookings:
  "NotificationModel_create d1 u t tt m mm = (x, d2) \<Longrightarrow> bookings d2 = bookings d1"
  by (auto simp: NotificationModel_create_def split: if_splits)

lemma create_result:
  "BookingModel_create d u t s f = (Inr b, d1) \<Longrightarrow> 0 < available d \<and> b \<in> set (bookings d1)"
  by (auto simp: BookingModel_create_def split: if_splits)

lemma create_unavailable:
  "available d = 0 \<Longrightarrow> BookingModel_create d u t s f = (Inl db_error, d)"
  by (simp add: BookingModel_create_def)

lemma cancel_result:
  assumes "BookingModel_cancel d bid uid = (Inr (Some b), d1)"
  shows "b \<in> set (bookings d1) \<and> status b = Some ''cancelled''"
proof -
  from assms obtain b0 bs where
    f: "filter (cancel_where bid uid) (bookings d) = b0 # bs" and b: "b = cancel_set d b0"
    and d1: "bookings d1 = map (\<lambda>b. if cancel_where bid uid b then cancel_set d b else b) (bookings d)"
    by (auto simp: BookingModel_cancel_def split: if_splits list.splits)
  from f have "b0 \<in> set (filter (cancel_where bid uid) (bookings d))" by simp
  then have "b0 \<in> set (bookings d)" and "cancel_where bid uid b0" by simp_all
  then have "cancel_set d b0 \<in> set (bookings d1)"
    unfolding d1 by force
  then show ?thesis
    by (simp add: b cancel_set_def)
qed

lemma post_order: "write_precedes False (steps (post_bookings h d q r))"
  by (simp add: post_bookings_def split: option.splits prod.splits sum.splits)

lemma delete_order: "write_precedes False (steps (delete_booking d q r))"
  by (simp add: delete_booking_def split: option.splits prod.splits sum.splits)

lemma post_rejected:
  assumes "post_validation h r \<noteq> None \<or> available d = 0"
  shows "queue_after (post_bookings h d q r) = q \<and> queued (steps (post_bookings h d q r)) = []"
  using assms
  by (auto simp: post_bookings_def create_unavailable split: option.splits)

lemma post_queued:
  assumes "queue_after (post_bookings h d q r) \<noteq> q"
  shows "\<exists>b. fst (BookingModel_create d (user_id_of r) (body_title r) (body_start r) (body_end r))
                = Inr b
           \<and> b \<in> set (bookings (db_after (post_bookings h d q r)))
           \<and> queue_after (post_bookings h d q r) = emailQueue_add q (confirmation_job r b)
           \<and> queued (steps (post_bookings h d q r)) = [confirmation_job r b]"
  using assms
  by (auto simp: post_bookings_def split: option.splits prod.splits sum.splits
           dest!: create_result notification_keeps_bookings)

lemma delete_rejected:
  assumes "\<forall>b. fst (BookingModel_cancel d (params_id r) (user_id_of r)) \<noteq> Inr (Some b)"
  shows "queue_after (delete_booking d q r) = q \<and> queued (steps (delete_booking d q r)) = []"
  using assms
  by (auto simp: delete_booking_def split: option.splits prod.splits sum.splits)

lemma delete_queued:
  assumes "queue_after (delete_booking d q r) \<noteq> q"
  shows "\<exists>b. fst (BookingModel_cancel d (params_id r) (user_id_of r)) = Inr (Some b)
           \<and> b \<in> set (bookings (db_after (delete_booking d q r)))
           \<and> status b = Some ''cancelled''
           \<and> queue_after (delete_booking d q r) = emailQueue_add q (cancellation_job r b)
           \<and> queued (steps (delete_booking d q r)) = [cancellation_job r b]"
  using assms
  by (auto simp: delete_booking_def split: option.splits prod.splits sum.splits
           dest!: cancel_result notification_keeps_bookings)

text \<open>
  C6. In POST /bookings and in DELETE /bookings/:id the email job is enqueued only after
  the write of the booking has succeeded: in the steps of either handler every
  \<open>EmailQueued\<close> comes after \<open>BookingCreated\<close> or \<open>BookingCancelled\<close>. When
  the body is rejected or the insert fails, and when the cancellation fails or updates
  no row, the queue is left as it was and nothing is enqueued. When the queue has
  changed, the booking that \<open>BookingModel.create\<close> (or \<open>cancel\<close>) returned is in
  the table, and the one job added is the one built from it.
\<close>

theorem email_queued_only_after_write:
  "write_precedes False (steps (post_bookings h d q r))
   \<and> write_precedes False (steps (delete_booking d q r))
   \<and> (post_validation h r \<noteq> None \<or> available d = 0 \<longrightarrow>
         queue_after (post_bookings h d q r) = q \<and> queued (steps (post_bookings h d q r)) = [])
   \<and> (queue_after (post_bookings h d q r) \<noteq> q \<longrightarrow>
         (\<exists>b. fst (BookingModel_create d (user_id_of r) (body_title r) (body_start r) (body_end r))
                 = Inr b
            \<and> b \<in> set (bookings (db_after (post_bookings h d q r)))
            \<and> queue_after (post_bookings h d q r) = emailQueue_add q (confirmation_job r b)
            \<and> queued (steps (post_bookings h d q r)) = [confirmation_job r b]))
   \<and> ((\<forall>b. fst (BookingModel_cancel d (params_id r) (user_id_of r)) \<noteq> Inr (Some b)) \<longrightarrow>
         queue_after (delete_booking d q r) = q \<and> queued (steps (delete_booking d q r)) = [])
   \<and> (queue_after (delete_booking d q r) \<noteq> q \<longrightarrow>
         (\<exists>b. fst (BookingModel_cancel d (params_id r) (user_id_of r)) = Inr (Some b)
            \<and> b \<in> set (bookings (db_after (delete_booking d q r)))
            \<and> status b = Some ''cancelled''
            \<and> queue_after (delete_booking d q r) = emailQueue_add q (cancellation_job r b)
            \<and> queued (steps (delete_booking d q r)) = [cancellation_job r b]))"
  using post_order [of h d q r] delete_order [of d q r] post_rejected [of h r d q]
    post_queued [of h d q r] delete_rejected [of d r q] delete_queued [of d q r]
  by blast

lemma standup_valid: "post_validation host_utc standup_request = None"
  by (simp add: post_validation_def standup_request_def host_utc_def)

lemma untitled_invalid:
  "post_validation host_utc (standup_request\<lparr>body_title := None\<rparr>)
     = Some ''Title, start, and end are required''"
  by (simp add: post_validation_def)

lemma standup_post:
  "steps (post_bookings host_utc sample_db emailQueue standup_request)
     = [BookingCreated \<lparr>booking_id = 3, user_id = Some 7, title = ''Standup'',
          start_time = Some (Str ''2026-04-01T09:00:00Z''),
          end_time = Some (Str ''2026-04-01T10:00:00Z''),
          status = Some ''confirmed'', created_at = 1774947600000, updated_at = 1774947600000\<rparr>,
        EmailQueued (confirmation_job standup_request \<lparr>booking_id = 3, user_id = Some 7, title = ''Standup'',
          start_time = Some (Str ''2026-04-01T09:00:00Z''),
          end_time = Some (Str ''2026-04-01T10:00:00Z''),
          status = Some ''confirmed'', created_at = 1774947600000, updated_at = 1774947600000\<rparr>),
        NotificationCreated
          \<lparr>notification_id = 1, n_user_id = Some 7, n_type = ''BOOKING_CONFIRMED'',
           n_title = ''Booking \"Standup\" confirmed'',
           n_message = Some ''Your booking is scheduled from 4/1/2026, 9:00:00 AM to 4/1/2026, 10:00:00 AM.'',
           is_read = False, metadata = ''{\"booking_id\":3}''\<rparr>,
        Responded 201]"
  apply (simp add: post_bookings_def standup_valid)
  apply (simp add: BookingModel_create_def NotificationModel_create_def sample_db_def standup_request_def)
  apply (simp add: host_utc_def show_int_def digits.simps)
  done

lemma standup_post_queue:
  "queue_after (post_bookings host_utc sample_db emailQueue standup_request)
     = emailQueue_add emailQueue
         (confirmation_job standup_request
            \<lparr>booking_id = 3, user_id = Some 7, title = ''Standup'',
             start_time = Some (Str ''2026-04-01T09:00:00Z''),
             end_time = Some (Str ''2026-04-01T10:00:00Z''),
             status = Some ''confirmed'', created_at = 1774947600000,
             updated_at = 1774947600000\<rparr>)"
  apply (simp add: post_bookings_def standup_valid)
  apply (simp add: BookingModel_create_def NotificationModel_create_def sample_db_def standup_request_def)
  done

lemma sample_cancel_none:
  "BookingModel_cancel sample_db (params_id standup_request) (user_id_of standup_request)
     = (Inr None, sample_db\<lparr>available := available sample_db - 1\<rparr>)"
  by (simp add: BookingModel_cancel_def sample_db_def standup_request_def cancel_where_def)

text \<open>A request without a title, the same request with its title, and the
  cancellation of a booking that is already cancelled.\<close>

theorem email_queued_only_after_write_witness:
  "post_validation host_utc (standup_request\<lparr>body_title := None\<rparr>) \<noteq> None
   \<and> queue_after (post_bookings host_utc sample_db emailQueue (standup_request\<lparr>body_title := None\<rparr>))
       = emailQueue
   \<and> queue_after (post_bookings host_utc sample_db emailQueue standup_request) \<noteq> emailQueue
   \<and> (\<exists>b. b \<in> set (bookings (db_after (post_bookings host_utc sample_db emailQueue standup_request)))
          \<and> queued (steps (post_bookings host_utc sample_db emailQueue standup_request))
              = [confirmation_job standup_request b])
   \<and> (\<forall>b. fst (BookingModel_cancel sample_db (params_id standup_request) (user_id_of standup_request))
              \<noteq> Inr (Some b))
   \<and> queue_after (delete_booking sample_db emailQueue standup_request) = emailQueue"
proof -
  have invalid: "post_validation host_utc (standup_request\<lparr>body_title := None\<rparr>) \<noteq> None"
    by (simp add: untitled_invalid)
  have changed: "queue_after (post_bookings host_utc sample_db emailQueue standup_request) \<noteq> emailQueue"
    by (simp add: standup_post_queue emailQueue_add_changes)
  have none: "\<forall>b. fst (BookingModel_cancel sample_db (params_id standup_request)
                          (user_id_of standup_request)) \<noteq> Inr (Some b)"
    by (simp add: sample_cancel_none)
  from email_queued_only_after_write
         [of host_utc sample_db emailQueue "standup_request\<lparr>body_title := None\<rparr>"] invalid
  have a: "queue_after (post_bookings host_utc sample_db emailQueue
                          (standup_request\<lparr>body_title := None\<rparr>)) = emailQueue"
    by blast
  from email_queued_only_after_write [of host_utc sample_db emailQueue standup_request] changed
  have b: "\<exists>b. b \<in> set (bookings (db_after (post_bookings host_utc sample_db emailQueue standup_request)))
          \<and> queued (steps (post_bookings host_utc sample_db emailQueue standup_request))
              = [confirmation_job standup_request b]"
    by blast
  from email_queued_only_after_write [of host_utc sample_db emailQueue standup_request] none
  have c: "queue_after (delete_booking sample_db emailQueue standup_request) = emailQueue"
    by blast
  from invalid a changed b none c show ?thesis by blast
qed

lemma not_cancellable:
  assumes "booking_id b = bid \<longrightarrow> user_id b \<noteq> Some uid \<or> status b = Some ''cancelled''"
  shows "\<not> cancel_where bid uid b"
  using assms by (auto simp: cancel_where_def)

lemma cancel_none:
  assumes "0 < available d"
    and "\<forall>b \<in> set (bookings d). \<not> cancel_where bid uid b"
  shows "BookingModel_cancel d bid uid = (Inr None, d\<lparr>available := available d - 1\<rparr>)"
proof -
  have f: "filter (cancel_where bid uid) (bookings d) = []"
    using assms(2) by (simp add: filter_empty_conv)
  have m: "map (\<lambda>b. if cancel_where bid uid b then cancel_set d b else b) (bookings d) = bookings d"
    using assms(2) by (simp add: map_idI)
  show ?thesis
    using assms(1) by (simp add: BookingModel_cancel_def f m)
qed

lemma delete_no_row:
  assumes "0 < available d"
    and "\<forall>b \<in> set (bookings d). \<not> cancel_where (params_id r) (user_id_of r) b"
  shows "delete_booking d q r =
           \<lparr>response = \<lparr>code = 404,
                         reply = ErrorReply ''Booking not found, not yours, or already cancelled''\<rparr>,
            db_after = d\<lparr>available := available d - 1\<rparr>, queue_after = q,
            steps = [NoRowCancelled, Responded 404]\<rparr>"
  by (simp add: delete_booking_def cancel_none [OF assms])

lemma cancelled_rows_stay:
  assumes "i < length (bookings d)" and "status (bookings d ! i) = Some ''cancelled''"
  shows "bookings (db_after (delete_booking d q r)) ! i = bookings d ! i"
proof -
  have n: "\<not> cancel_where (params_id r) (user_id_of r) (bookings d ! i)"
    using assms(2) by (simp add: cancel_where_def)
  have c: "bookings (snd (BookingModel_cancel d (params_id r) (user_id_of r))) ! i = bookings d ! i"
    using assms(1) n by (simp add: BookingModel_cancel_def)
  have "bookings (db_after (delete_booking d q r))
          = bookings (snd (BookingModel_cancel d (params_id r) (user_id_of r)))"
    by (auto simp: delete_booking_def dest: notification_keeps_bookings
             split: prod.splits sum.splits option.splits)
  with c show ?thesis by simp
qed

text \<open>
  C10. When the database answers and every booking with the id of the path belongs to
  another user or is already cancelled (or there is none), \<open>BookingModel.cancel\<close>
  returns \<open>undefined\<close> and leaves every row as it was, and the handler answers 404
  without enqueueing a job and without creating a notification. And whatever the
  request, a row whose status is \<open>cancelled\<close> is the same row after the handler has
  run.
\<close>

theorem cancel_is_terminal:
  "(0 < available d
      \<and> (\<forall>b \<in> set (bookings d).
            booking_id b = params_id r \<longrightarrow>
              user_id b \<noteq> Some (user_id_of r) \<or> status b = Some ''cancelled'')
     \<longrightarrow> BookingModel_cancel d (params_id r) (user_id_of r)
           = (Inr None, d\<lparr>available := available d - 1\<rparr>)
         \<and> code (response (delete_booking d q r)) = 404
         \<and> queue_after (delete_booking d q r) = q
         \<and> queued (steps (delete_booking d q r)) = []
         \<and> notified (steps (delete_booking d q r)) = []
         \<and> notifications (db_after (delete_booking d q r)) = notifications d
         \<and> bookings (db_after (delete_booking d q r)) = bookings d)
   \<and> (\<forall>i < length (bookings d).
         status (bookings d ! i) = Some ''cancelled'' \<longrightarrow>
           bookings (db_after (delete_booking d q r)) ! i = bookings d ! i)"
proof -
  have first: "BookingModel_cancel d (params_id r) (user_id_of r)
           = (Inr None, d\<lparr>available := available d - 1\<rparr>)
         \<and> code (response (delete_booking d q r)) = 404
         \<and> queue_after (delete_booking d q r) = q
         \<and> queued (steps (delete_booking d q r)) = []
         \<and> notified (steps (delete_booking d q r)) = []
         \<and> notifications (db_after (delete_booking d q r)) = notifications d
         \<and> bookings (db_after (delete_booking d q r)) = bookings d"
    if a: "0 < available d"
      and m: "\<forall>b \<in> set (bookings d).
            booking_id b = params_id r \<longrightarrow>
              user_id b \<noteq> Some (user_id_of r) \<or> status b = Some ''cancelled''"
  proof -
    have n: "\<forall>b \<in> set (bookings d). \<not> cancel_where (params_id r) (user_id_of r) b"
      using m not_cancellable by blast
    show ?thesis
      by (simp add: cancel_none [OF a n] delete_no_row [OF a n])
  qed
  from first cancelled_rows_stay [of _ d q r] show ?thesis by blast
qed

text \<open>User 7 cancels booking 1 again; and booking 1 is untouched when user 8 cancels
  booking 2.\<close>

theorem cancel_is_terminal_witness:
  "0 < available sample_db
   \<and> map (\<lambda>b. (booking_id b, user_id b, status b)) (bookings sample_db)
       = [(1, Some 7, Some ''cancelled''), (2, Some 8, Some ''confirmed'')]
   \<and> (params_id standup_request, user_id_of standup_request) = (1, 7)
   \<and> code (response (delete_booking sample_db emailQueue standup_request)) = 404
   \<and> queue_after (delete_booking sample_db emailQueue standup_request) = emailQueue
   \<and> bookings (db_after (delete_booking sample_db emailQueue standup_request)) = bookings sample_db
   \<and> 0 < length (bookings sample_db)
   \<and> status (bookings sample_db ! 0) = Some ''cancelled''
   \<and> bookings (db_after (delete_booking sample_db emailQueue (standup_request\<lparr>params_id := 2, user_id_of := 8\<rparr>))) ! 0
       = bookings sample_db ! 0"
proof -
  have a: "0 < available sample_db"
    by (simp add: sample_db_def)
  have m: "\<forall>b \<in> set (bookings sample_db).
          booking_id b = params_id standup_request \<longrightarrow>
            user_id b \<noteq> Some (user_id_of standup_request) \<or> status b = Some ''cancelled''"
    by (simp add: sample_db_def standup_request_def)
  have l: "0 < length (bookings sample_db)" "status (bookings sample_db ! 0) = Some ''cancelled''"
    by (simp_all add: sample_db_def)
  from cancel_is_terminal [of sample_db standup_request emailQueue] a m
  have one: "code (response (delete_booking sample_db emailQueue standup_request)) = 404
   \<and> queue_after (delete_booking sample_db emailQueue standup_request) = emailQueue
   \<and> bookings (db_after (delete_booking sample_db emailQueue standup_request)) = bookings sample_db"
    by blast
  from cancel_is_terminal [of sample_db "standup_request\<lparr>params_id := 2, user_id_of := 8\<rparr>" emailQueue] l
  have two: "bookings (db_after (delete_booking sample_db emailQueue (standup_request\<lparr>params_id := 2, user_id_of := 8\<rparr>))) ! 0
       = bookings sample_db ! 0"
    by blast
  have rows: "map (\<lambda>b. (booking_id b, user_id b, status b)) (bookings sample_db)
       = [(1, Some 7, Some ''cancelled''), (2, Some 8, Some ''confirmed'')]"
    by (simp add: sample_db_def)
  have req: "(params_id standup_request, user_id_of standup_request) = (1, 7)"
    by (simp add: standup_request_def)
  from a rows req one l two show ?thesis by blast
qed


end
